theory Spec2Isabelle
  imports Complex_Main "HOL-Library.Multiset"
begin

section \<open>Course records as dictionaries\<close>

text \<open>
  The advisor works on course dictionaries (rows of the course table turned into
  dicts). A dictionary is an association list from column names to cells; a cell is a
  string, a number or Python's \<open>None\<close>.
\<close>

datatype cell = Str string | Num int | NA

type_synonym row = "(string \<times> cell) list"

text \<open>\<open>d.get(key, default)\<close>\<close>

definition get :: "row \<Rightarrow> string \<Rightarrow> cell \<Rightarrow> cell" where
  "get d k dflt = (case map_of d k of Some v \<Rightarrow> v | None \<Rightarrow> dflt)"

text \<open>Python truthiness of a cell: the empty string, zero and \<open>None\<close> are false.\<close>

fun truthy :: "cell \<Rightarrow> bool" where
  "truthy (Str s) = (s \<noteq> [])"
| "truthy (Num n) = (n \<noteq> 0)"
| "truthy NA = False"

section \<open>Timetable conflict detector\<close>

text \<open>
  \<open>check_timetable_conflict(enrolled_courses, new_course)\<close>: the loop collects the
  names of the enrolled courses whose \<open>class_time\<close> is truthy and equal to the
  candidate's.
\<close>

fun conflicting_loop :: "row list \<Rightarrow> cell \<Rightarrow> cell list \<Rightarrow> cell list" where
  "conflicting_loop [] new_time conflicting = conflicting"
| "conflicting_loop (course # rest) new_time conflicting =
     (let existing_time = get course ''class_time'' (Str '''') in
      if truthy existing_time \<and> existing_time = new_time
      then conflicting_loop rest new_time
             (conflicting @ [get course ''course_name'' (Str ''Unknown Course'')])
      else conflicting_loop rest new_time conflicting)"

definition check_timetable_conflict :: "row list \<Rightarrow> row \<Rightarrow> bool \<times> cell list" where
  "check_timetable_conflict enrolled_courses new_course =
     (if enrolled_courses = [] then (False, [])
      else let new_time = get new_course ''class_time'' (Str '''') in
        if \<not> truthy new_time then (False, [])
        else let conflicting = conflicting_loop enrolled_courses new_time [] in
          (length conflicting > 0, conflicting))"

text \<open>
  \<open>get_all_timetable_conflicts(course_list)\<close>. The dict \<open>time_groups\<close> keeps
  insertion order, so it is an association list; \<open>group_append\<close> is
  \<open>time_groups[time].append(name)\<close> after the key has been created when missing.
\<close>

type_synonym groups = "(cell \<times> cell list) list"

fun group_append :: "cell \<Rightarrow> cell \<Rightarrow> groups \<Rightarrow> groups" where
  "group_append t n [] = [(t, [n])]"
| "group_append t n ((k, ns) # gs) =
     (if k = t then (k, ns @ [n]) # gs else (k, ns) # group_append t n gs)"

fun time_groups :: "row list \<Rightarrow> groups \<Rightarrow> groups" where
  "time_groups [] g = g"
| "time_groups (course # rest) g =
     (let time = get course ''class_time'' (Str '''') in
      if truthy time
      then time_groups rest (group_append time (get course ''course_name'' (Str ''Unknown'')) g)
      else time_groups rest g)"

text \<open>The two nested \<open>range\<close> loops over one group.\<close>

definition group_pairs :: "cell list \<Rightarrow> cell \<Rightarrow> (cell \<times> cell \<times> cell) list" where
  "group_pairs courses time =
     concat (map (\<lambda>i. map (\<lambda>j. (courses ! i, courses ! j, time)) [i + 1 ..< length courses])
                 [0 ..< length courses])"

definition get_all_timetable_conflicts :: "row list \<Rightarrow> (cell \<times> cell \<times> cell) list" where
  "get_all_timetable_conflicts course_list =
     concat (map (\<lambda>(time, courses). if length courses > 1 then group_pairs courses time else [])
                 (time_groups course_list []))"

text \<open>
  What the specification asks of the all-pairs scan, written from its words: one triple
  for each pair of list positions \<open>i < j\<close> whose time-slot labels are equal. The
  amended form keeps only the pairs whose label is set.
\<close>

definition class_time :: "row \<Rightarrow> cell" where
  "class_time c = get c ''class_time'' (Str '''')"

definition name_all :: "row \<Rightarrow> cell" where
  "name_all c = get c ''course_name'' (Str ''Unknown'')"

definition name_one :: "row \<Rightarrow> cell" where
  "name_one c = get c ''course_name'' (Str ''Unknown Course'')"

fun scheduled_pairs :: "row list \<Rightarrow> (cell \<times> cell \<times> cell) multiset" where
  "scheduled_pairs [] = {#}"
| "scheduled_pairs (c # cs) =
     mset (map (\<lambda>d. (name_all c, name_all d, class_time c))
            (filter (\<lambda>d. truthy (class_time c) \<and> class_time d = class_time c) cs))
     + scheduled_pairs cs"

text \<open>Two unscheduled courses, used as a concrete input below.\<close>

definition unscheduled_a :: row where
  "unscheduled_a = [(''course_name'', Str ''Algebra''), (''class_time'', Str '''')]"

definition unscheduled_b :: row where
  "unscheduled_b = [(''course_name'', Str ''Biology''), (''class_time'', Str '''')]"

definition morning_a :: row where
  "morning_a = [(''course_name'', Str ''Algebra''), (''class_time'', Str ''9:00 AM - 12:20 PM'')]"

definition morning_b :: row where
  "morning_b = [(''course_name'', Str ''Biology''), (''class_time'', Str ''9:00 AM - 12:20 PM'')]"

subsection \<open>Properties of the detector\<close>

lemma conflicting_loop_eq:
  "truthy new_time \<Longrightarrow>
   conflicting_loop cs new_time acc
     = acc @ map name_one (filter (\<lambda>c. class_time c = new_time) cs)"
  by (induction cs arbitrary: acc) (auto simp: Let_def class_time_def name_one_def)



lemma upt_Suc_shift: "[Suc i ..< Suc n] = map Suc [i ..< n]"
  by (simp only: map_Suc_upt)

lemma map_nth_pairs: "map (\<lambda>j. f (xs ! j)) [0 ..< length xs] = map f xs"
proof -
  have "map (\<lambda>j. f (xs ! j)) [0 ..< length xs] = map f (map (nth xs) [0 ..< length xs])"
    by (simp only: map_map comp_def)
  then show ?thesis by (simp only: map_nth)
qed

lemma group_pairs_Cons:
  "group_pairs (x # xs) t = map (\<lambda>y. (x, y, t)) xs @ group_pairs xs t"
proof -
  let ?F = "\<lambda>i. map (\<lambda>j. ((x # xs) ! i, (x # xs) ! j, t)) [i + 1 ..< length (x # xs)]"
  have idx: "[0 ..< length (x # xs)] = 0 # map Suc [0 ..< length xs]"
    by (simp only: length_Cons upt_conv_Cons [OF zero_less_Suc] upt_Suc_shift)
  have a: "?F 0 = map (\<lambda>y. (x, y, t)) xs"
  proof -
    have "?F 0 = map (\<lambda>j. (x, (x # xs) ! j, t)) (map Suc [0 ..< length xs])"
      by (simp only: length_Cons upt_Suc_shift nth_Cons_0 add_0 One_nat_def)
    also have "\<dots> = map (\<lambda>j. (x, xs ! j, t)) [0 ..< length xs]"
      by (simp only: map_map comp_def nth_Cons_Suc)
    also have "\<dots> = map (\<lambda>y. (x, y, t)) xs"
      by (rule map_nth_pairs)
    finally show ?thesis .
  qed
  have b: "?F (Suc i) = map (\<lambda>j. (xs ! i, xs ! j, t)) [i + 1 ..< length xs]" for i
  proof -
    have "?F (Suc i) = map (\<lambda>j. (xs ! i, (x # xs) ! j, t)) (map Suc [i + 1 ..< length xs])"
      by (simp only: length_Cons upt_Suc_shift nth_Cons_Suc Suc_eq_plus1 [symmetric] add_Suc)
    then show ?thesis by (simp only: map_map comp_def nth_Cons_Suc)
  qed
  have "group_pairs (x # xs) t = concat (map ?F (0 # map Suc [0 ..< length xs]))"
    unfolding group_pairs_def by (simp only: idx)
  also have "\<dots> = ?F 0 @ concat (map (\<lambda>i. ?F (Suc i)) [0 ..< length xs])"
    by (simp only: list.map concat.simps map_map comp_def)
  also have "\<dots> = map (\<lambda>y. (x, y, t)) xs @ group_pairs xs t"
    unfolding group_pairs_def by (simp only: a b)
  finally show ?thesis .
qed


lemma group_pairs_Nil: "group_pairs [] t = []"
  by (simp add: group_pairs_def)

lemma group_pairs_short: "length ns \<le> 1 \<Longrightarrow> group_pairs ns t = []"
  by (cases ns) (simp_all add: group_pairs_Nil group_pairs_Cons)

lemma mset_group_pairs_snoc:
  "mset (group_pairs (ns @ [n]) t)
     = mset (group_pairs ns t) + mset (map (\<lambda>m. (m, n, t)) ns)"
  by (induction ns) (simp_all add: group_pairs_Nil group_pairs_Cons)

definition lookup :: "groups \<Rightarrow> cell \<Rightarrow> cell list" where
  "lookup g t = (case map_of g t of None \<Rightarrow> [] | Some ns \<Rightarrow> ns)"

definition all_group_pairs :: "groups \<Rightarrow> (cell \<times> cell \<times> cell) multiset" where
  "all_group_pairs g = sum_list (map (\<lambda>(t, ns). mset (group_pairs ns t)) g)"

fun cross_pairs :: "groups \<Rightarrow> row list \<Rightarrow> (cell \<times> cell \<times> cell) multiset" where
  "cross_pairs g [] = {#}"
| "cross_pairs g (c # cs) =
     (if truthy (class_time c)
      then mset (map (\<lambda>m. (m, name_all c, class_time c)) (lookup g (class_time c)))
      else {#}) + cross_pairs g cs"

lemma lookup_group_append:
  "lookup (group_append t n g) t' = (if t' = t then lookup g t @ [n] else lookup g t')"
  by (induction g) (auto simp: lookup_def)

lemma all_group_pairs_append:
  "all_group_pairs (group_append t n g)
     = all_group_pairs g + mset (map (\<lambda>m. (m, n, t)) (lookup g t))"
  by (induction g)
     (auto simp: all_group_pairs_def lookup_def group_pairs_Nil group_pairs_Cons
        mset_group_pairs_snoc)

lemma cross_pairs_append:
  "truthy t \<Longrightarrow>
   cross_pairs (group_append t n g) cs
     = cross_pairs g cs
       + mset (map (\<lambda>d. (n, name_all d, t)) (filter (\<lambda>d. class_time d = t) cs))"
  by (induction cs) (auto simp: lookup_group_append)

lemma all_group_pairs_time_groups:
  "all_group_pairs (time_groups cl g)
     = all_group_pairs g + scheduled_pairs cl + cross_pairs g cl"
proof (induction cl arbitrary: g)
  case Nil
  then show ?case by simp
next
  case (Cons c cs)
  show ?case
  proof (cases "truthy (class_time c)")
    case True
    have "filter (\<lambda>d. truthy (class_time c) \<and> class_time d = class_time c) cs
            = filter (\<lambda>d. class_time d = class_time c) cs"
      using True by simp
    then show ?thesis
      using True Cons.IH [of "group_append (class_time c) (name_all c) g"]
      by (simp add: Let_def class_time_def [symmetric] name_all_def [symmetric]
            all_group_pairs_append cross_pairs_append)
  next
    case False
    then show ?thesis
      using Cons.IH [of g]
      by (simp add: Let_def class_time_def [symmetric] name_all_def [symmetric])
  qed
qed

lemma mset_conflicts_groups:
  "mset (concat (map (\<lambda>(time, courses).
       if length courses > 1 then group_pairs courses time else []) g)) = all_group_pairs g"
proof (induction g)
  case Nil
  then show ?case by (simp add: all_group_pairs_def)
next
  case (Cons p g)
  obtain t ns where p: "p = (t, ns)" by (cases p)
  have "(if length ns > 1 then group_pairs ns t else []) = group_pairs ns t"
    using group_pairs_short [of ns t] by auto
  then show ?case using Cons by (simp add: p all_group_pairs_def)
qed

lemma mset_get_all_timetable_conflicts:
  "mset (get_all_timetable_conflicts cl) = scheduled_pairs cl"
proof -
  have "all_group_pairs [] = {#}" by (simp add: all_group_pairs_def)
  moreover have "cross_pairs [] cl = {#}" by (induction cl) (simp_all add: lookup_def)
  ultimately show ?thesis
    unfolding get_all_timetable_conflicts_def mset_conflicts_groups
    by (simp add: all_group_pairs_time_groups)
qed

lemma time_groups_filter:
  "time_groups (filter (\<lambda>c. truthy (class_time c)) cl) g = time_groups cl g"
  by (induction cl arbitrary: g) (simp_all add: Let_def class_time_def)

lemma scheduled_pairs_truthy:
  "x \<in># scheduled_pairs cl \<Longrightarrow> truthy (snd (snd x))"
  by (induction cl) auto

lemma check_eq:
  "truthy (class_time new_course) \<Longrightarrow>
   check_timetable_conflict enrolled new_course
     = (let names = map name_one (filter (\<lambda>c. class_time c = class_time new_course) enrolled)
        in (names \<noteq> [], names))"
  by (simp add: check_timetable_conflict_def Let_def conflicting_loop_eq class_time_def [symmetric])


text \<open>
  C1 (as stated): a triple for each pair of courses whose time-slot strings are equal.
  It fails for unscheduled courses: two courses whose \<open>class_time\<close> is the empty
  string have equal labels, yet the scan emits nothing and the pairwise check answers
  \<open>(False, [])\<close>.
\<close>

theorem conflict_equal_empty_slots_counterexample:
  "class_time unscheduled_a = class_time unscheduled_b
   \<and> get_all_timetable_conflicts [unscheduled_a, unscheduled_b] = []
   \<and> check_timetable_conflict [unscheduled_a] unscheduled_b = (False, [])"
  by (simp add: class_time_def unscheduled_a_def unscheduled_b_def get_def
        get_all_timetable_conflicts_def check_timetable_conflict_def)

text \<open>
  C1 (amended): conflict detection is exact equality of the time-slot label among the
  courses whose label is set. The all-pairs scan emits, counted with multiplicity, one
  triple \<open>(name\<^sub>i, name\<^sub>j, slot)\<close> for each pair of positions \<open>i < j\<close> of the list whose
  labels are equal and non-empty; and for a candidate whose label is non-empty the
  pairwise check returns the names of exactly the enrolled courses carrying that label,
  in list order, with the flag saying whether there is one.
\<close>

theorem conflicts_exact_on_scheduled:
  "mset (get_all_timetable_conflicts cl) = scheduled_pairs cl
   \<and> (truthy (class_time new_course) \<longrightarrow>
        check_timetable_conflict enrolled new_course
          = (map name_one (filter (\<lambda>c. class_time c = class_time new_course) enrolled) \<noteq> [],
             map name_one (filter (\<lambda>c. class_time c = class_time new_course) enrolled)))"
  using check_eq [of new_course enrolled]
  by (simp add: mset_get_all_timetable_conflicts Let_def)

theorem conflicts_exact_on_scheduled_witness:
  "truthy (class_time morning_a)
   \<and> mset (get_all_timetable_conflicts [morning_a, unscheduled_a, morning_b])
       = {#(Str ''Algebra'', Str ''Biology'', Str ''9:00 AM - 12:20 PM'')#}
   \<and> check_timetable_conflict [unscheduled_a, morning_b] morning_a = (True, [Str ''Biology''])"
  using conflicts_exact_on_scheduled [of "[morning_a, unscheduled_a, morning_b]" morning_a
      "[unscheduled_a, morning_b]"]
  by (simp add: class_time_def name_one_def name_all_def morning_a_def morning_b_def
        unscheduled_a_def get_def)

text \<open>
  C10: unscheduled courses are invisible to the detector. The pairwise check answers
  \<open>(False, [])\<close> when nothing is enrolled and when the candidate's \<open>class_time\<close> is
  missing or empty; the all-pairs scan gives the same result with the unscheduled
  courses removed from its input, and every triple it emits carries a non-empty label.
\<close>

theorem unscheduled_invisible:
  "check_timetable_conflict [] new_course = (False, [])
   \<and> (\<not> truthy (class_time new_course) \<longrightarrow>
        check_timetable_conflict enrolled new_course = (False, []))
   \<and> get_all_timetable_conflicts cl
       = get_all_timetable_conflicts (filter (\<lambda>c. truthy (class_time c)) cl)
   \<and> (\<forall>x \<in> set (get_all_timetable_conflicts cl). truthy (snd (snd x)))"
proof -
  have "x \<in> set (get_all_timetable_conflicts cl) \<Longrightarrow> truthy (snd (snd x))" for x
    using scheduled_pairs_truthy [of x cl] mset_get_all_timetable_conflicts [of cl]
    by (metis set_mset_mset)
  then show ?thesis
    by (simp add: check_timetable_conflict_def class_time_def [symmetric]
          get_all_timetable_conflicts_def time_groups_filter)
qed

theorem unscheduled_invisible_witness:
  "\<not> truthy (class_time unscheduled_a)
   \<and> check_timetable_conflict [morning_a, unscheduled_b] unscheduled_a = (False, [])
   \<and> get_all_timetable_conflicts [morning_a, unscheduled_a, morning_b]
       = get_all_timetable_conflicts [morning_a, morning_b]
   \<and> get_all_timetable_conflicts [morning_a, unscheduled_a, morning_b]
       = [(Str ''Algebra'', Str ''Biology'', Str ''9:00 AM - 12:20 PM'')]"
  using unscheduled_invisible [of unscheduled_a "[morning_a, unscheduled_b]"
      "[morning_a, unscheduled_a, morning_b]"]
  by (simp add: class_time_def morning_a_def morning_b_def unscheduled_a_def get_def
        get_all_timetable_conflicts_def group_pairs_def)


section \<open>Python string operations\<close>

text \<open>
  Strings are lists of 8-bit characters, read as the code points U+0000 to U+00FF
  (Latin-1). \<open>lower\<close> is \<open>str.lower\<close>, which on this range lowers \<open>A\<close> to \<open>Z\<close>
  and the letters 0xC0 to 0xDE except the multiplication sign 0xD7; \<open>is_space\<close> is
  \<open>str.isspace\<close>, the whitespace of \<open>str.strip()\<close> and \<open>str.split()\<close> without
  arguments; \<open>contains s sub\<close> is \<open>sub in s\<close>; \<open>replace\<close> is \<open>str.replace\<close> (all
  non-overlapping occurrences, left to right) and \<open>py_str\<close> is \<open>str()\<close> of a cell.
\<close>

definition latin1_upper :: string where
  "latin1_upper = [CHR 0xC0, CHR 0xC1, CHR 0xC2, CHR 0xC3, CHR 0xC4, CHR 0xC5, CHR 0xC6, CHR 0xC7, CHR 0xC8, CHR 0xC9, CHR 0xCA, CHR 0xCB, CHR 0xCC, CHR 0xCD, CHR 0xCE, CHR 0xCF,
                     CHR 0xD0, CHR 0xD1, CHR 0xD2, CHR 0xD3, CHR 0xD4, CHR 0xD5, CHR 0xD6, CHR 0xD8, CHR 0xD9, CHR 0xDA, CHR 0xDB, CHR 0xDC, CHR 0xDD, CHR 0xDE]"

definition latin1_lower :: string where
  "latin1_lower = [CHR 0xE0, CHR 0xE1, CHR 0xE2, CHR 0xE3, CHR 0xE4, CHR 0xE5, CHR 0xE6, CHR 0xE7, CHR 0xE8, CHR 0xE9, CHR 0xEA, CHR 0xEB, CHR 0xEC, CHR 0xED, CHR 0xEE, CHR 0xEF,
                     CHR 0xF0, CHR 0xF1, CHR 0xF2, CHR 0xF3, CHR 0xF4, CHR 0xF5, CHR 0xF6, CHR 0xF8, CHR 0xF9, CHR 0xFA, CHR 0xFB, CHR 0xFC, CHR 0xFD, CHR 0xFE]"

definition lower_char :: "char \<Rightarrow> char" where
  "lower_char c =
     (case map_of (zip (''ABCDEFGHIJKLMNOPQRSTUVWXYZ'' @ latin1_upper)
                       (''abcdefghijklmnopqrstuvwxyz'' @ latin1_lower)) c of
        Some d \<Rightarrow> d | None \<Rightarrow> c)"

definition lower :: "string \<Rightarrow> string" where
  "lower s = map lower_char s"

definition is_space :: "char \<Rightarrow> bool" where
  "is_space c = (c \<in> set [CHR 0x09, CHR 0x0A, CHR 0x0B, CHR 0x0C, CHR 0x0D,
                            CHR 0x1C, CHR 0x1D, CHR 0x1E, CHR 0x1F, CHR '' '',
                            CHR 0x85, CHR 0xA0])"

definition strip :: "string \<Rightarrow> string" where
  "strip s = rev (dropWhile is_space (rev (dropWhile is_space s)))"

fun split_go :: "string \<Rightarrow> string \<Rightarrow> string list" where
  "split_go [] cur = (if cur = [] then [] else [cur])"
| "split_go (c # cs) cur =
     (if is_space c then (if cur = [] then split_go cs [] else cur # split_go cs [])
      else split_go cs (cur @ [c]))"

definition split :: "string \<Rightarrow> string list" where
  "split s = split_go s []"

fun startswith :: "string \<Rightarrow> string \<Rightarrow> bool" where
  "startswith s [] = True"
| "startswith [] (p # ps) = False"
| "startswith (c # cs) (p # ps) = (c = p \<and> startswith cs ps)"

fun contains :: "string \<Rightarrow> string \<Rightarrow> bool" where
  "contains [] sub = (sub = [])"
| "contains (c # cs) sub = (startswith (c # cs) sub \<or> contains cs sub)"

fun replace_go :: "nat \<Rightarrow> string \<Rightarrow> string \<Rightarrow> string \<Rightarrow> string" where
  "replace_go k old new [] = []"
| "replace_go k old new (c # cs) =
     (if k > 0 then replace_go (k - 1) old new cs
      else if startswith (c # cs) old then new @ replace_go (length old - 1) old new cs
      else c # replace_go 0 old new cs)"

definition replace :: "string \<Rightarrow> string \<Rightarrow> string \<Rightarrow> string" where
  "replace s old new =
     (if old = [] then new @ concat (map (\<lambda>c. c # new) s) else replace_go 0 old new s)"

fun digits :: "nat \<Rightarrow> string" where
  "digits n = (if n < 10 then [''0123456789'' ! n]
               else digits (n div 10) @ [''0123456789'' ! (n mod 10)])"

definition py_str :: "cell \<Rightarrow> string" where
  "py_str v = (case v of Str s \<Rightarrow> s
                | Num n \<Rightarrow> (if n < 0 then CHR ''-'' # digits (nat (- n)) else digits (nat n))
                | NA \<Rightarrow> ''None'')"

text \<open>\<open>any(kw in s for kw in kws)\<close>\<close>

definition any_in :: "string list \<Rightarrow> string \<Rightarrow> bool" where
  "any_in kws s = list_ex (\<lambda>kw. contains s kw) kws"


section \<open>Relevance scorer\<close>


datatype error = KeyError string | IndexError | TypeError | AttributeError | ReError

text \<open>\<open>row[key]\<close>: a missing column raises \<open>KeyError\<close>.\<close>

definition subscript :: "row \<Rightarrow> string \<Rightarrow> error + cell" where
  "subscript d k = (case map_of d k of Some v \<Rightarrow> Inr v | None \<Rightarrow> Inl (KeyError k))"

definition career_map :: "(string \<times> string list) list" where
  "career_map =
    [(''software engineer'', [''programming'', ''software'', ''development'', ''code'',
        ''algorithms'', ''web'', ''api'', ''backend'', ''frontend'']),
     (''data scientist'', [''data'', ''analytics'', ''machine learning'', ''statistics'',
        ''python'', ''ai'', ''deep learning'', ''visualization'']),
     (''cybersecurity analyst'', [''security'', ''network'', ''encryption'', ''hacking'',
        ''cyber'', ''forensics'', ''threat'']),
     (''product manager'', [''product'', ''management'', ''strategy'', ''business'', ''agile'',
        ''leadership'']),
     (''ux designer'', [''design'', ''user'', ''interface'', ''experience'', ''visual'', ''ui'',
        ''prototyping'', ''research'']),
     (''data engineer'', [''data'', ''pipeline'', ''etl'', ''database'', ''big data'', ''spark'',
        ''hadoop'']),
     (''web developer'', [''web'', ''html'', ''css'', ''javascript'', ''react'', ''node'',
        ''frontend'']),
     (''business analyst'', [''business'', ''analytics'', ''strategy'', ''analysis'',
        ''intelligence''])]"

fun career_lookup :: "(string \<times> string list) list \<Rightarrow> string \<Rightarrow> string list" where
  "career_lookup [] goal = [''technology'', ''programming'', ''development'']"
| "career_lookup ((key, keywords) # rest) goal =
     (if contains (lower goal) key then keywords else career_lookup rest goal)"

definition get_career_keywords :: "string \<Rightarrow> string list" where
  "get_career_keywords career_goal = career_lookup career_map career_goal"

text \<open>The six summands of \<open>_score_courses\<close>, in the order of the source.\<close>

definition major_points :: "string \<Rightarrow> row \<Rightarrow> error + int" where
  "major_points major course =
     (case subscript course ''category'' of
        Inl e \<Rightarrow> Inl e
      | Inr cat \<Rightarrow> Inr (if contains (lower (py_str cat)) (lower major) then 10 else 0))"

definition program_points :: "string \<Rightarrow> row \<Rightarrow> int" where
  "program_points program course =
     (if contains (lower (py_str (get course ''program_name'' (Str '''')))) (lower program)
      then 5 else 0)"

definition career_points :: "string \<Rightarrow> row \<Rightarrow> int" where
  "career_points career_goal course =
     (if career_goal \<noteq> [] then
        (let skills = lower (py_str (get course ''skills_covered_str'' (Str '''')));
             desc = lower (py_str (get course ''course_description'' (Str '''')))
         in 3 * int (length (filter (\<lambda>keyword. contains skills keyword \<or> contains desc keyword)
                                 (get_career_keywords career_goal))))
      else 0)"

definition level_points :: "string \<Rightarrow> row \<Rightarrow> int" where
  "level_points experience_level course =
     (let difficulty = py_str (get course ''estimated_difficulty'' (Str ''Intermediate'')) in
      if experience_level = ''Beginner'' \<and> difficulty = ''Beginner'' then 4
      else if experience_level = ''Intermediate''
              \<and> difficulty \<in> set [''Beginner'', ''Intermediate''] then 4
      else if experience_level = ''Advanced'' then 2
      else 0)"

definition query_points :: "string option \<Rightarrow> row \<Rightarrow> error + int" where
  "query_points query course =
     (case query of
        None \<Rightarrow> Inr 0
      | Some q \<Rightarrow>
          if q = [] then Inr 0
          else (case subscript course ''course_name'' of
                  Inl e \<Rightarrow> Inl e
                | Inr cname \<Rightarrow>
                   (case subscript course ''course_description'' of
                      Inl e \<Rightarrow> Inl e
                    | Inr cdesc \<Rightarrow>
                       (let query_lower = lower q;
                            course_text = lower (py_str cname @ '' '' @ py_str cdesc @ '' ''
                                @ py_str (get course ''skills_covered_str'' (Str '''')))
                        in Inr ((if contains course_text query_lower then 8 else 0)
                             + 2 * int (length (filter
                                 (\<lambda>word. length word > 3 \<and> contains course_text word)
                                 (split query_lower))))))))"

definition type_points :: "row \<Rightarrow> int" where
  "type_points course =
     (let course_type = get course ''course_type'' (Str ''secondary'') in
      if course_type = Str ''mandatory'' then 7
      else if course_type = Str ''secondary'' then 4
      else 2)"

definition score_course ::
  "string \<Rightarrow> string \<Rightarrow> string \<Rightarrow> string \<Rightarrow> string option \<Rightarrow> row \<Rightarrow> error + int" where
  "score_course major career_goal experience_level program query course =
     (case major_points major course of
        Inl e \<Rightarrow> Inl e
      | Inr s1 \<Rightarrow>
         (case query_points query course of
            Inl e \<Rightarrow> Inl e
          | Inr s5 \<Rightarrow>
              Inr (s1 + program_points program course + career_points career_goal course
                   + level_points experience_level course + s5 + type_points course)))"










section \<open>Intent classifier\<close>

text \<open>
  \<open>_analyze_query_intent(query)\<close>. The query is \<open>None\<close> or a string. The
  similarity \<open>SequenceMatcher(None, a, b).ratio()\<close> of Python's \<open>difflib\<close> is a
  parameter \<open>ratio\<close> of the model; every other step is computed. No operation of the
  function can raise on a string, so the model returns the label itself.
\<close>

definition greeting_keywords :: "string list" where
  "greeting_keywords = [''hello'', ''hi'', ''hey'', ''good morning'', ''good afternoon'',
     ''good evening'', ''greetings'', ''howdy'']"

definition how_are_you_keywords :: "string list" where
  "how_are_you_keywords = [''how are you'', ''how r u'', ''how are u'', ''hows it going'',
     ''how is it going'', ''whats up'', ''what'' @ [CHR 0x27] @ ''s up'', ''sup'']"

definition expansions :: "(string \<times> string) list" where
  "expansions =
    [(''ml'', ''machine learning''), (''ai'', ''artificial intelligence''),
     (''ds'', ''data science''), (''cs'', ''computer science''),
     (''cyber'', ''cybersecurity''), (''webdev'', ''web development''),
     (''db'', ''database''), (''dl'', ''deep learning''), (''nn'', ''neural network''),
     (''machne'', ''machine''), (''learing'', ''learning''), (''lecurer'', ''lecturer''),
     (''instuctor'', ''instructor''), (''proffesor'', ''professor''),
     (''scince'', ''science''), (''engeneer'', ''engineer''), (''devloper'', ''developer'')]"

fun apply_expansions :: "(string \<times> string) list \<Rightarrow> string \<Rightarrow> string" where
  "apply_expansions [] query_lower = query_lower"
| "apply_expansions ((abbr, full) # rest) query_lower =
     apply_expansions rest
       (if contains query_lower abbr then replace query_lower abbr full else query_lower)"

definition specific_prep_keywords :: "string list" where
  "specific_prep_keywords = [''what to prepare for'', ''what should i prepare for'',
     ''how to prepare for'', ''prepare for'', ''get ready for'', ''before taking'',
     ''what do i need for'', ''prerequisites for'', ''ready for'']"

definition duration_keywords :: "string list" where
  "duration_keywords = [''how long'', ''duration'', ''how many years'', ''length'', ''year'',
     ''years'', ''program duration'', ''bachelor duration'', ''master duration'',
     ''how much time'', ''time to complete'', ''how many'', ''long is'', ''take to complete'',
     ''time required'']"

definition attendance_consequence_keywords :: "string list" where
  "attendance_consequence_keywords = [''what if'', ''what happen'', ''skip class'',
     ''miss class'', ''dont attend'', ''don'' @ [CHR 0x27] @ ''t attend'', ''absent'',
     ''too many absence'', ''skip mandatory'', ''miss mandatory'', ''late to class'',
     ''miss too many'', ''fail because'']"

definition attendance_words :: "string list" where
  "attendance_words = [''class'', ''mandatory'', ''attendance'', ''absent'', ''skip'', ''miss'',
     ''late'']"

definition issues_keywords :: "string list" where
  "issues_keywords = [''have issue'', ''have problem'', ''need help'', ''having trouble'',
     ''struggling'', ''cant attend'', ''can'' @ [CHR 0x27] @ ''t attend'', ''emergency'',
     ''conflict'', ''sick'', ''medical'']"

definition lecturer_keywords :: "string list" where
  "lecturer_keywords = [''lecturer'', ''lecturers'', ''professor'', ''instructor'',
     ''instructors'', ''teacher'', ''teachers'', ''prof'', ''faculty'', ''tutor'',
     ''who teaches'', ''who teach'']"

definition explanation_keywords :: "string list" where
  "explanation_keywords = [''mandatory'', ''audit'', ''secondary'', ''course type'',
     ''what is mandatory'', ''what is audit'', ''explain'']"

definition failure_words :: "string list" where
  "failure_words = [''skip'', ''miss'', ''dont'', ''don'' @ [CHR 0x27] @ ''t'', ''happen'',
     ''what if'']"

definition prep_keywords :: "string list" where
  "prep_keywords = [''before class'', ''preparation'', ''study tips'', ''prepare well'',
     ''how to study'']"

definition course_indicators :: "string list" where
  "course_indicators = [''course'', ''class'', ''learn'', ''study'', ''teach'', ''training'',
     ''program'']"

definition topic_keywords :: "string list" where
  "topic_keywords = [''machine learning'', ''ml'', ''artificial intelligence'', ''ai'',
     ''data science'', ''computer science'', ''cybersecurity'', ''cyber'', ''security'',
     ''web development'', ''web'', ''database'', ''db'', ''deep learning'', ''neural network'',
     ''programming'', ''software'', ''data'', ''python'', ''java'', ''javascript'',
     ''software development'', ''web dev'', ''mobile'', ''app development'', ''frontend'',
     ''backend'', ''fullstack'', ''business'', ''design'', ''ux'', ''ui'', ''marketing'',
     ''entrepreneurship'', ''analytics'']"

definition single_word_topics :: "string list" where
  "single_word_topics = [''ml'', ''ai'', ''software'', ''business'', ''design'', ''marketing'',
     ''data'', ''web'', ''mobile'', ''python'', ''java'', ''javascript'', ''security'', ''cyber'',
     ''database'', ''programming'']"

definition two_word_topics :: "string list" where
  "two_word_topics = [''computer science'', ''data science'', ''machine learning'',
     ''web development'', ''software development'', ''deep learning'',
     ''artificial intelligence'', ''cyber security'', ''app development'',
     ''digital marketing'']"

definition blocking_keywords :: "string list" where
  "blocking_keywords = [''schedule'', ''career'', ''module'', ''time'', ''timing'', ''morning'',
     ''afternoon'', ''evening'']"

definition schedule_keywords :: "string list" where
  "schedule_keywords = [''time'', ''timing'', ''schedule'', ''when'', ''morning'', ''afternoon'',
     ''evening'']"

definition career_keywords :: "string list" where
  "career_keywords = [''career'', ''job'', ''future'', ''work'', ''industry'', ''professional'']"

definition module_keywords :: "string list" where
  "module_keywords = [''module'', ''semester'', ''this module'', ''next module'', ''planning'']"

definition program_query_patterns :: "string list" where
  "program_query_patterns = [''what is in'', ''whats in'', ''courses in'', ''what courses'',
     ''show me'', ''tell me about'', ''information about'', ''about the'', ''in the'',
     ''major'', ''program'', ''degree'', ''what can i study'', ''what will i learn'']"

definition program_names :: "string list" where
  "program_names = [''computer science'', ''data science'', ''cyber security'',
     ''cybersecurity'', ''front-end development'', ''frontend'', ''interaction design'',
     ''design'', ''digital marketing'', ''marketing'', ''high-tech entrepreneurship'',
     ''entrepreneurship'', ''business'', ''digital transformation'', ''product management'',
     ''fintech'', ''applied data and computer science'']"

text \<open>\<open>_fuzzy_match(word, keyword_list, threshold=0.75)\<close>\<close>

definition fuzzy_match :: "(string \<Rightarrow> string \<Rightarrow> real) \<Rightarrow> string \<Rightarrow> string list \<Rightarrow> bool" where
  "fuzzy_match ratio word keyword_list =
     (let word_lower = lower word in
      list_ex (\<lambda>keyword. contains word_lower keyword \<or> contains keyword word_lower
                 \<or> ratio word_lower keyword \<ge> 0.75) keyword_list)"

text \<open>The greeting test on the trimmed, lower-cased text, before any expansion.\<close>

definition is_greeting :: "string \<Rightarrow> bool" where
  "is_greeting query_lower =
     (list_ex (\<lambda>kw. kw = query_lower \<or> startswith query_lower (kw @ '' '')
                  \<or> startswith query_lower (kw @ '','')) greeting_keywords
      \<or> any_in how_are_you_keywords query_lower)"

text \<open>
  The rules between the expansion and the topic rules, in source order; \<open>None\<close> when
  none of them returns. An inner \<open>if\<close> without \<open>else\<close> falls through to the next rule,
  which is the conjunction of the two tests.
\<close>

definition priority_rules :: "(string \<Rightarrow> string \<Rightarrow> real) \<Rightarrow> string \<Rightarrow> string option" where
  "priority_rules ratio query_lower =
     (if any_in specific_prep_keywords query_lower then Some ''specific_class_preparation''
      else if any_in duration_keywords query_lower then Some ''program_duration''
      else if any_in attendance_consequence_keywords query_lower
              \<and> any_in attendance_words query_lower then Some ''attendance_consequences''
      else if any_in issues_keywords query_lower then Some ''student_issues''
      else if any_in lecturer_keywords query_lower then Some ''lecturer_info''
      else if list_ex (\<lambda>word. fuzzy_match ratio word lecturer_keywords) (split query_lower)
        then Some ''lecturer_info''
      else if any_in explanation_keywords query_lower
              \<and> \<not> any_in failure_words query_lower then Some ''course_type_explanation''
      else if any_in prep_keywords query_lower then Some ''preparation_advice''
      else None)"

text \<open>The topic rules and everything after them.\<close>

definition topic_rules :: "string \<Rightarrow> string" where
  "topic_rules query_lower =
     (let has_course_indicator = any_in course_indicators query_lower;
          word_count = length (split query_lower)
      in
      if word_count \<le> 3 \<and> any_in single_word_topics query_lower then ''general_info''
      else if word_count \<le> 3 \<and> any_in two_word_topics query_lower then ''general_info''
      else if (has_course_indicator \<or> any_in topic_keywords query_lower)
              \<and> \<not> any_in blocking_keywords query_lower then ''general_info''
      else if any_in schedule_keywords query_lower then ''schedule_info''
      else if any_in career_keywords query_lower then ''career_guidance''
      else if any_in module_keywords query_lower then ''module_planning''
      else if any_in program_names query_lower \<and> any_in program_query_patterns query_lower
        then ''program_info''
      else ''course_recommendation'')"

definition analyze_query_intent :: "(string \<Rightarrow> string \<Rightarrow> real) \<Rightarrow> string option \<Rightarrow> string" where
  "analyze_query_intent ratio query =
     (case query of
        None \<Rightarrow> ''course_recommendation''
      | Some q \<Rightarrow>
          if q = [] then ''course_recommendation''
          else if is_greeting (strip (lower q)) then ''greeting''
          else (let query_lower = apply_expansions expansions (strip (lower q)) in
                case priority_rules ratio query_lower of
                  Some label \<Rightarrow> label
                | None \<Rightarrow> topic_rules query_lower))"

definition intent_labels :: "string list" where
  "intent_labels = [''course_recommendation'', ''greeting'', ''specific_class_preparation'',
     ''program_duration'', ''attendance_consequences'', ''student_issues'', ''lecturer_info'',
     ''course_type_explanation'', ''preparation_advice'', ''general_info'', ''schedule_info'',
     ''career_guidance'', ''module_planning'', ''program_info'']"

text \<open>A similarity that never reaches the threshold, to run the classifier on examples.\<close>

definition no_similarity :: "string \<Rightarrow> string \<Rightarrow> real" where
  "no_similarity a b = 0"


subsection \<open>Properties of the classifier\<close>

text \<open>
  C2: the classifier is total. For every input, \<open>None\<close> and the empty string included,
  and whatever the similarity measure answers, it returns one of the fourteen intent
  labels; for \<open>None\<close> and for the empty string the label is
  \<open>course_recommendation\<close>.
\<close>

theorem classifier_total:
  "analyze_query_intent ratio query \<in> set intent_labels
   \<and> analyze_query_intent ratio None = ''course_recommendation''
   \<and> analyze_query_intent ratio (Some '''') = ''course_recommendation''"
proof -
  have p: "priority_rules ratio ql = Some label \<Longrightarrow> label \<in> set intent_labels" for ql label
    by (auto simp: priority_rules_def intent_labels_def split: if_splits)
  have t: "topic_rules ql \<in> set intent_labels" for ql
    by (simp add: topic_rules_def intent_labels_def Let_def)
  have "analyze_query_intent ratio query \<in> set intent_labels"
  proof (cases query)
    case None
    then show ?thesis by (simp add: analyze_query_intent_def intent_labels_def)
  next
    case (Some q)
    show ?thesis
    proof (cases "priority_rules ratio (apply_expansions expansions (strip (lower q)))")
      case None
      then show ?thesis
        using t [of "apply_expansions expansions (strip (lower q))"]
        by (simp add: Some analyze_query_intent_def Let_def) (simp add: intent_labels_def)
    next
      case (Some label)
      then show ?thesis
        using p [OF Some]
        by (simp add: \<open>query = Some q\<close> analyze_query_intent_def Let_def)
           (simp add: intent_labels_def)
    qed
  qed
  then show ?thesis by (simp add: analyze_query_intent_def)
qed

theorem classifier_total_witness:
  "analyze_query_intent no_similarity (Some ''xyzzy'') = ''course_recommendation''
   \<and> analyze_query_intent no_similarity (Some ''xyzzy'') \<in> set intent_labels"
proof -
  have "analyze_query_intent no_similarity (Some ''xyzzy'') = ''course_recommendation''"
    by code_simp
  then show ?thesis
    using classifier_total [of no_similarity "Some ''xyzzy''"] by simp
qed

text \<open>
  C3 (as stated): a query of at most three words that contains a topic entry is
  classified \<open>general_info\<close> whatever other cue it carries. It fails: the topic rule
  comes after the lecturer rule in the cascade. \<open>ml lecturer\<close> expands to
  \<open>machine learning lecturer\<close>, three words containing the two-word topic
  \<open>machine learning\<close>, and is classified \<open>lecturer_info\<close>.
\<close>

theorem short_topic_override_counterexample:
  "apply_expansions expansions (strip (lower ''ml lecturer'')) = ''machine learning lecturer''
   \<and> length (split ''machine learning lecturer'') \<le> 3
   \<and> any_in two_word_topics ''machine learning lecturer''
   \<and> analyze_query_intent no_similarity (Some ''ml lecturer'') = ''lecturer_info''"
  by code_simp

text \<open>
  C3 (amended): for every query that no earlier rule of the cascade catches (it is not
  a greeting, and none of the rules for specific-class preparation, program duration,
  attendance consequences, student issues, lecturers (direct or fuzzy), course-type
  explanation and preparation advice returns), whose text after abbreviation expansion
  has at most three words and contains a single-word or two-word topic entry, the
  classifier returns \<open>general_info\<close>, whatever later cue (schedule, career, module or
  program vocabulary) is present.
\<close>

theorem short_topic_override:
  assumes "q \<noteq> []"
    and "\<not> is_greeting (strip (lower q))"
    and "priority_rules ratio (apply_expansions expansions (strip (lower q))) = None"
    and "length (split (apply_expansions expansions (strip (lower q)))) \<le> 3"
    and "any_in single_word_topics (apply_expansions expansions (strip (lower q)))
         \<or> any_in two_word_topics (apply_expansions expansions (strip (lower q)))"
  shows "analyze_query_intent ratio (Some q) = ''general_info''"
  using assms by (auto simp: analyze_query_intent_def topic_rules_def Let_def)

theorem short_topic_override_witness:
  "''ML career'' \<noteq> []
   \<and> \<not> is_greeting (strip (lower ''ML career''))
   \<and> priority_rules no_similarity (apply_expansions expansions (strip (lower ''ML career'')))
       = None
   \<and> length (split (apply_expansions expansions (strip (lower ''ML career'')))) \<le> 3
   \<and> any_in two_word_topics (apply_expansions expansions (strip (lower ''ML career'')))
   \<and> any_in career_keywords (apply_expansions expansions (strip (lower ''ML career'')))
   \<and> analyze_query_intent no_similarity (Some ''ML career'') = ''general_info''"
proof -
  have a: "''ML career'' \<noteq> []" by simp
  have b: "\<not> is_greeting (strip (lower ''ML career''))" by code_simp
  have c: "priority_rules no_similarity
             (apply_expansions expansions (strip (lower ''ML career''))) = None"
    by code_simp
  have d: "length (split (apply_expansions expansions (strip (lower ''ML career'')))) \<le> 3"
    by code_simp
  have e: "any_in two_word_topics (apply_expansions expansions (strip (lower ''ML career'')))"
    by code_simp
  have f: "any_in career_keywords (apply_expansions expansions (strip (lower ''ML career'')))"
    by code_simp
  show ?thesis
    using a b c d e f short_topic_override [OF a b c d disjI2 [OF e]] by simp
qed



section \<open>Course table\<close>

text \<open>
  A \<open>DataFrame\<close> is its list of column names and its rows in positional order, each
  row a dictionary over the columns. Text columns hold strings or missing values
  (\<open>NA\<close>). \<open>df.empty\<close> holds when there is no row or no column.
\<close>

record frame =
  columns :: "string list"
  rows :: "row list"

definition empty_frame :: frame where
  "empty_frame = \<lparr>columns = [], rows = []\<rparr>"

definition df_empty :: "frame \<Rightarrow> bool" where
  "df_empty df = (rows df = [] \<or> columns df = [])"

text \<open>\<open>df[mask]\<close> for a row-wise mask, \<open>df.head(n)\<close> for \<open>n \<ge> 0\<close>.\<close>

definition filter_rows :: "(row \<Rightarrow> bool) \<Rightarrow> frame \<Rightarrow> frame" where
  "filter_rows p df = df\<lparr>rows := filter p (rows df)\<rparr>"

definition head :: "nat \<Rightarrow> frame \<Rightarrow> frame" where
  "head n df = df\<lparr>rows := take n (rows df)\<rparr>"

text \<open>\<open>d[key] = value\<close> on a dictionary: replace in place, or add at the end.\<close>

fun put :: "string \<Rightarrow> cell \<Rightarrow> row \<Rightarrow> row" where
  "put k v [] = [(k, v)]"
| "put k v ((k', v') # d) = (if k' = k then (k, v) # d else (k', v') # put k v d)"

text \<open>\<open>df[col] = value\<close>: the column is created when missing and set in every row.\<close>

definition set_column :: "string \<Rightarrow> cell \<Rightarrow> frame \<Rightarrow> frame" where
  "set_column k v df =
     \<lparr>columns = (if k \<in> set (columns df) then columns df else columns df @ [k]),
      rows = map (put k v) (rows df)\<rparr>"

text \<open>
  The string tests on a column cell. A missing or non-string cell gives \<open>False\<close>
  (\<open>na=False\<close>). The pattern of \<open>str.contains\<close> is taken literally: the major is
  assumed to hold no regular-expression metacharacter.
\<close>

definition str_lower_eq :: "cell \<Rightarrow> string \<Rightarrow> bool" where
  "str_lower_eq c s = (case c of Str t \<Rightarrow> lower t = s | _ \<Rightarrow> False)"

definition str_lower_contains_any :: "string list \<Rightarrow> cell \<Rightarrow> bool" where
  "str_lower_contains_any kws c = (case c of Str t \<Rightarrow> any_in kws (lower t) | _ \<Rightarrow> False)"

definition str_contains_ci :: "string \<Rightarrow> cell \<Rightarrow> bool" where
  "str_contains_ci pat c = (case c of Str t \<Rightarrow> contains (lower t) (lower pat) | _ \<Rightarrow> False)"

text \<open>\<open>df[col]\<close> on a table: \<open>KeyError\<close> when the column is missing.\<close>

definition need_column :: "string \<Rightarrow> frame \<Rightarrow> (error + 'a) \<Rightarrow> error + 'a" where
  "need_column k df rest = (if k \<in> set (columns df) then rest else Inl (KeyError k))"

definition and_then :: "error + 'a \<Rightarrow> ('a \<Rightarrow> error + 'b) \<Rightarrow> error + 'b" where
  "and_then r f = (case r of Inl e \<Rightarrow> Inl e | Inr x \<Rightarrow> f x)"

text \<open>\<open>df.iloc[i]\<close> for \<open>i \<ge> 0\<close>, and a list of such accesses evaluated in order.\<close>

definition iloc :: "row list \<Rightarrow> nat \<Rightarrow> error + row" where
  "iloc xs i = (if i < length xs then Inr (xs ! i) else Inl IndexError)"

fun ilocs :: "row list \<Rightarrow> nat list \<Rightarrow> error + row list" where
  "ilocs xs [] = Inr []"
| "ilocs xs (i # is) =
     and_then (iloc xs i) (\<lambda>r. and_then (ilocs xs is) (\<lambda>rs. Inr (r # rs)))"

section \<open>Schedule synthesizer\<close>

text \<open>
  \<open>generate_smart_schedule\<close>. Three things come from outside the function and are
  parameters of the model: \<open>py_hash\<close>, the process's string hash; \<open>sample_order\<close>,
  the order in which \<open>DataFrame.sample(frac=1, random_state=seed)\<close> returns the
  positions of a table of \<open>n\<close> rows; and \<open>now\<close>, the value of \<open>datetime.now()\<close>.
  Dates are integers (microseconds).
\<close>

record course_module =
  m_name :: string
  m_number :: nat
  m_courses :: "row list"
  m_start_date :: int
  m_end_date :: int
  m_total_credits :: int
  m_description :: string

definition weeks :: "int \<Rightarrow> int" where
  "weeks k = k * 604800000000"

definition CLASS_TIMES :: "(int \<times> string) list" where
  "CLASS_TIMES = [(1, ''9:00 AM - 12:20 PM''), (2, ''1:00 PM - 4:20 PM''),
                  (3, ''5:00 PM - 8:20 PM'')]"

fun assign_times :: "nat \<Rightarrow> row list \<Rightarrow> row list" where
  "assign_times idx [] = []"
| "assign_times idx (course # rest) =
     (let time_slot = CLASS_TIMES ! (idx mod 3) in
      put ''slot_number'' (Num (fst time_slot)) (put ''time_slot'' (Str (snd time_slot)) course)
      # assign_times (Suc idx) rest)"

text \<open>\<open>sum(c.get('credits', 3) for c in courses_with_times)\<close>\<close>

fun sum_credits :: "int \<Rightarrow> row list \<Rightarrow> error + int" where
  "sum_credits acc [] = Inr acc"
| "sum_credits acc (c # cs) =
     (case get c ''credits'' (Num 3) of
        Num n \<Rightarrow> sum_credits (acc + n) cs
      | _ \<Rightarrow> Inl TypeError)"

definition create_module ::
  "string \<Rightarrow> row list \<Rightarrow> int \<Rightarrow> string \<Rightarrow> nat \<Rightarrow> error + course_module" where
  "create_module name courses start_date description module_number =
     (let courses_with_times = assign_times 0 courses in
      and_then (sum_credits 0 courses_with_times) (\<lambda>credits.
        Inr \<lparr>m_name = name, m_number = module_number, m_courses = courses_with_times,
             m_start_date = start_date, m_end_date = start_date + weeks 3,
             m_total_credits = credits, m_description = description\<rparr>))"

definition profile_get :: "(string \<times> string) list \<Rightarrow> string \<Rightarrow> string \<Rightarrow> string" where
  "profile_get p k dflt = (case map_of p k of Some v \<Rightarrow> v | None \<Rightarrow> dflt)"

definition capstone_keywords :: "string list" where
  "capstone_keywords = [''capstone'', ''seminar'', ''thesis'', ''final project'',
     ''graduation project'']"

definition sample :: "(int \<Rightarrow> nat \<Rightarrow> nat list) \<Rightarrow> int \<Rightarrow> frame \<Rightarrow> frame" where
  "sample sample_order seed df =
     df\<lparr>rows := map (\<lambda>i. rows df ! i) (sample_order seed (length (rows df)))\<rparr>"

text \<open>The courses of the level, without capstone-like courses (lines 1900-1922).\<close>

definition early_module_courses :: "string \<Rightarrow> frame \<Rightarrow> frame" where
  "early_module_courses level courses_df =
     (let level_courses0 =
            (if ''Level'' \<in> set (columns courses_df)
             then filter_rows (\<lambda>r. str_lower_eq (get r ''Level'' NA) level) courses_df
             else courses_df);
          level_courses = (if df_empty level_courses0 then courses_df else level_courses0)
      in
      if ''Course'' \<in> set (columns level_courses)
      then filter_rows (\<lambda>r. \<not> str_lower_contains_any capstone_keywords (get r ''Course'' NA))
             level_courses
      else if ''course_name'' \<in> set (columns level_courses)
      then filter_rows
             (\<lambda>r. \<not> str_lower_contains_any capstone_keywords (get r ''course_name'' NA))
             level_courses
      else level_courses)"

text \<open>The two pools before the completed courses are removed (lines 1924-1940).\<close>

definition pools :: "string \<Rightarrow> frame \<Rightarrow> frame \<times> frame" where
  "pools major early =
     (let (major_courses, other_courses) =
            (if ''category'' \<in> set (columns early)
             then (filter_rows (\<lambda>r. str_contains_ci major (get r ''category'' NA)) early,
                   filter_rows (\<lambda>r. \<not> str_contains_ci major (get r ''category'' NA)) early)
             else (early, empty_frame))
      in (if df_empty major_courses then early else major_courses, other_courses))"

text \<open>Lines 1944-1946: only a non-empty list of completed ids filters.\<close>

definition drop_completed :: "cell list option \<Rightarrow> frame \<Rightarrow> error + frame" where
  "drop_completed completed_courses df =
     (case completed_courses of
        None \<Rightarrow> Inr df
      | Some ids \<Rightarrow>
          if ids = [] then Inr df
          else need_column ''course_id'' df
                 (Inr (filter_rows (\<lambda>r. get r ''course_id'' NA \<notin> set ids) df)))"

text \<open>
  Lines 1957-1963. \<open>int(total_other * 0.3)\<close> is \<open>3 * total_other div 10\<close>; the last
  \<open>audit_count\<close> rows become audit courses.
\<close>

definition label_other :: "frame \<Rightarrow> frame" where
  "label_other other_courses =
     (if \<not> df_empty other_courses then
        (let total_other = length (rows other_courses);
             secondary = set_column ''course_type'' (Str ''secondary'') other_courses;
             audit_count = (3 * total_other) div 10
         in if audit_count > 0
            then secondary\<lparr>rows := take (total_other - audit_count) (rows secondary)
                   @ map (put ''course_type'' (Str ''audit''))
                       (drop (total_other - audit_count) (rows secondary))\<rparr>
            else secondary)
      else other_courses)"

definition of_type :: "string \<Rightarrow> row list \<Rightarrow> row list" where
  "of_type t rs = filter (\<lambda>r. get r ''course_type'' NA = Str t) rs"

text \<open>
  Lines 1974-1990, taken when no course carries a type: the major pool is relabelled by
  position.
\<close>

definition relabel_by_position :: "row list \<Rightarrow> row list" where
  "relabel_by_position major_rows =
     (let total = length major_rows;
          secondary = map (put ''course_type'' (Str ''secondary'')) major_rows
      in if total > 0 then
           (let mandatory_count = max 3 (min 4 (total div 5));
                secondary_count = total div 2
            in map (put ''course_type'' (Str ''mandatory'')) (take mandatory_count secondary)
               @ map (put ''course_type'' (Str ''secondary''))
                   (take secondary_count (drop mandatory_count secondary))
               @ (if total > mandatory_count + secondary_count
                  then map (put ''course_type'' (Str ''audit''))
                         (drop (mandatory_count + secondary_count) secondary)
                  else drop (mandatory_count + secondary_count) secondary))
         else secondary)"

text \<open>
  The seven module blocks (lines 1995-2169). Each block is guarded, picks positions of
  the three typed lists with \<open>iloc\<close>, and yields a module when it picked a course.
  The position lists below are the branches of the source, block by block.
\<close>

definition pick :: "row list \<Rightarrow> row list \<Rightarrow> row list \<Rightarrow> nat list \<Rightarrow> nat list \<Rightarrow> nat list
    \<Rightarrow> error + row list" where
  "pick mandatory secondary audit ms ss as =
     and_then (ilocs mandatory ms) (\<lambda>m.
     and_then (ilocs secondary ss) (\<lambda>s.
     and_then (ilocs audit as) (\<lambda>a. Inr (m @ s @ a))))"

definition m1_positions :: "nat \<Rightarrow> nat \<Rightarrow> nat \<Rightarrow> nat list \<times> nat list \<times> nat list" where
  "m1_positions nm ns na =
     (if nm \<ge> 1 then [0] else [],
      if ns \<ge> 4 then [0, 1, 2, 3] else if ns \<ge> 3 then [0, 1, 2]
      else if ns \<ge> 2 then [0, 1] else if ns = 1 then [0] else [],
      if na \<noteq> 0 then [0] else [])"

definition m2_positions :: "nat \<Rightarrow> nat \<Rightarrow> nat \<Rightarrow> nat list \<times> nat list \<times> nat list" where
  "m2_positions nm ns na =
     (if nm \<ge> 2 then [1] else [],
      if ns \<ge> 8 then [4, 5, 6, 7] else if ns \<ge> 6 then [4, 5, 6]
      else if ns \<ge> 5 then [4, 5] else if ns = 5 then [4] else [],
      if na > 1 then [1] else [])"

definition m3_positions :: "nat \<Rightarrow> nat \<Rightarrow> nat \<Rightarrow> nat list \<times> nat list \<times> nat list" where
  "m3_positions nm ns na =
     (if nm \<ge> 3 then [2] else [],
      if ns \<ge> 12 then [8, 9, 10, 11] else if ns \<ge> 11 then [8, 9, 10]
      else if ns \<ge> 10 then [8, 9] else if ns \<ge> 9 then [8] else [],
      if na > 2 then [2] else [])"

definition m4_positions :: "nat \<Rightarrow> nat \<Rightarrow> nat \<Rightarrow> nat list \<times> nat list \<times> nat list" where
  "m4_positions nm ns na =
     (if nm \<ge> 4 then [3] else [],
      if ns \<ge> 15 then [12, 13, 14] else if ns \<ge> 14 then [12, 13]
      else if ns \<ge> 13 then [12] else [],
      if na > 3 then [3] else [])"

definition m5_positions :: "nat \<Rightarrow> nat \<Rightarrow> nat \<Rightarrow> nat list \<times> nat list \<times> nat list" where
  "m5_positions nm ns na =
     ([],
      if ns \<ge> 18 then [15, 16, 17] else if ns \<ge> 17 then [15, 16]
      else if ns \<ge> 16 then [15] else [],
      if na > 4 then [4] else [])"

definition m6_positions :: "nat \<Rightarrow> nat \<Rightarrow> nat \<Rightarrow> nat list \<times> nat list \<times> nat list" where
  "m6_positions nm ns na =
     ([],
      if ns \<ge> 21 then [18, 19, 20] else if ns \<ge> 20 then [18, 19]
      else if ns \<ge> 19 then [18] else [],
      if na > 5 then [5] else [])"

definition m7_positions :: "nat \<Rightarrow> nat \<Rightarrow> nat \<Rightarrow> nat list \<times> nat list \<times> nat list" where
  "m7_positions nm ns na =
     ([],
      if ns \<ge> 24 then [21, 22, 23] else if ns \<ge> 23 then [21, 22]
      else if ns \<ge> 22 then [21] else [],
      [])"

text \<open>
  One block: when the guard holds and courses were picked, the module is appended to
  \<open>modules\<close>.
\<close>

definition block :: "bool \<Rightarrow> nat list \<times> nat list \<times> nat list \<Rightarrow> row list \<Rightarrow> row list \<Rightarrow> row list
    \<Rightarrow> string \<Rightarrow> int \<Rightarrow> string \<Rightarrow> nat \<Rightarrow> course_module list \<Rightarrow> error + course_module list" where
  "block guard positions mandatory secondary audit name start_date description number modules =
     (if guard then
        (case positions of (ms, ss, as) \<Rightarrow>
           and_then (pick mandatory secondary audit ms ss as) (\<lambda>courses.
             if courses \<noteq> []
             then and_then (create_module name courses start_date description number)
                    (\<lambda>m. Inr (modules @ [m]))
             else Inr modules))
      else Inr modules)"

text \<open>\<open>modules[:limit_modules]\<close> for an integer limit of either sign.\<close>

definition slice_to :: "int \<Rightarrow> 'a list \<Rightarrow> 'a list" where
  "slice_to n xs = (if n \<ge> 0 then take (nat n) xs else take (length xs - nat (- n)) xs)"

definition build_modules ::
  "string \<Rightarrow> int \<Rightarrow> bool \<Rightarrow> row list \<Rightarrow> row list \<Rightarrow> row list \<Rightarrow> error + course_module list" where
  "build_modules major start_date all_nonempty mandatory secondary audit =
     (let nm = length mandatory; ns = length secondary; na = length audit;
          blk = (\<lambda>guard positions. block guard positions mandatory secondary audit)
      in
      and_then (blk all_nonempty (m1_positions nm ns na)
                  ''Module 1'' start_date (''Foundation courses for '' @ major) 1 []) (\<lambda>ms1.
      and_then (blk (nm > 1 \<or> ns > 4) (m2_positions nm ns na)
                  ''Module 2'' (start_date + weeks 3) (''Core '' @ major @ '' development'') 2
                  ms1) (\<lambda>ms2.
      and_then (blk (nm > 2 \<or> ns > 8) (m3_positions nm ns na)
                  ''Module 3'' (start_date + weeks 6)
                  (major @ '' specialization and exploration'') 3 ms2) (\<lambda>ms3.
      and_then (blk (nm > 3 \<or> ns > 12) (m4_positions nm ns na)
                  ''Module 4 (Year 2)'' (start_date + weeks 52)
                  (''Year 2: Advanced '' @ major @ '' concepts'') 4 ms3) (\<lambda>ms4.
      and_then (blk (ns > 15) (m5_positions nm ns na)
                  ''Module 5 (Year 2)'' (start_date + weeks 55)
                  (''Year 2: '' @ major @ '' specialization'') 5 ms4) (\<lambda>ms5.
      and_then (blk (ns > 18) (m6_positions nm ns na)
                  ''Module 6 (Year 2)'' (start_date + weeks 58)
                  ''Year 2: Capstone preparation'' 6 ms5) (\<lambda>ms6.
      blk (ns > 21) (m7_positions nm ns na)
                  ''Module 7 (Year 3)'' (start_date + weeks 104)
                  ''Year 3: Advanced specialization'' 7 ms6)))))))"

text \<open>
  Lines 1948-1990: shuffle both pools, label them, and split the first ten rows of each
  by type. The first component says whether \<open>all_courses\<close> has a row.
\<close>

definition typed_lists ::
  "(string \<Rightarrow> int) \<Rightarrow> (int \<Rightarrow> nat \<Rightarrow> nat list) \<Rightarrow> string \<Rightarrow> frame \<Rightarrow> frame
    \<Rightarrow> bool \<times> row list \<times> row list \<times> row list" where
  "typed_lists py_hash sample_order major major1 other1 =
     (let seed = py_hash major mod 100;
          major_courses = set_column ''course_type'' (Str ''mandatory'')
                            (sample sample_order seed major1);
          other_courses = label_other (sample sample_order (seed + 1) other1);
          all_courses = rows (head 10 major_courses) @ rows (head 10 other_courses);
          mandatory = take 10 (of_type ''mandatory'' all_courses);
          secondary = take 10 (of_type ''secondary'' all_courses);
          audit = take 6 (of_type ''audit'' all_courses)
      in if mandatory = [] \<and> secondary = [] \<and> audit = []
         then (let relabelled = relabel_by_position (rows major_courses)
               in (all_courses \<noteq> [], of_type ''mandatory'' relabelled,
                   of_type ''secondary'' relabelled, of_type ''audit'' relabelled))
         else (all_courses \<noteq> [], mandatory, secondary, audit))"

definition generate_smart_schedule ::
  "(string \<Rightarrow> int) \<Rightarrow> (int \<Rightarrow> nat \<Rightarrow> nat list) \<Rightarrow> int \<Rightarrow> frame option
    \<Rightarrow> (string \<times> string) list \<Rightarrow> cell list option \<Rightarrow> cell list option \<Rightarrow> int
    \<Rightarrow> error + course_module list" where
  "generate_smart_schedule py_hash sample_order now courses_df student_profile
       enrolled_courses completed_courses limit_modules =
     (let major = profile_get student_profile ''major'' ''Computer Science'';
          program = profile_get student_profile ''program''
                      (''Bachelor'' @ [CHR 0x27] @ ''s Degree'');
          level = (if contains (lower program) ''bachelor'' then ''bachelor'' else ''master'')
      in
      case courses_df of
        None \<Rightarrow> Inr []
      | Some df \<Rightarrow>
          if df_empty df then Inr []
          else
            (case pools major (early_module_courses level df) of (major0, other0) \<Rightarrow>
             and_then (drop_completed completed_courses major0) (\<lambda>major1.
             and_then (drop_completed completed_courses other0) (\<lambda>other1.
               (case typed_lists py_hash sample_order major major1 other1 of
                  (all_nonempty, mandatory, secondary, audit) \<Rightarrow>
                    and_then (build_modules major now all_nonempty mandatory secondary audit)
                      (\<lambda>modules. Inr (slice_to limit_modules modules)))))))"


subsection \<open>Properties of the synthesizer\<close>

text \<open>What a module is made of, dates aside.\<close>

definition composition :: "course_module \<Rightarrow> string \<times> nat \<times> row list \<times> int \<times> string" where
  "composition m = (m_name m, m_number m, m_courses m, m_total_credits m, m_description m)"

definition compositions :: "error + course_module list \<Rightarrow> error + (string \<times> nat \<times> row list \<times> int \<times> string) list" where
  "compositions r = (case r of Inl e \<Rightarrow> Inl e | Inr ms \<Rightarrow> Inr (map composition ms))"

text \<open>Sample orders of a two-row table, and example tables.\<close>

definition identity_order :: "int \<Rightarrow> nat \<Rightarrow> nat list" where
  "identity_order seed n = [0 ..< n]"

definition zero_hash :: "string \<Rightarrow> int" where
  "zero_hash s = 0"

definition design_course :: "string \<Rightarrow> row" where
  "design_course cid = [(''course_id'', Str cid), (''course_name'', Str (''Design '' @ cid)),
     (''category'', Str ''Interaction Design'')]"

definition two_design :: frame where
  "two_design = \<lparr>columns = [''course_id'', ''course_name'', ''category''],
                 rows = [design_course ''D1'', design_course ''D2'']\<rparr>"

definition course_ids :: "course_module \<Rightarrow> cell list" where
  "course_ids m = map (\<lambda>c. get c ''course_id'' NA) (m_courses m)"

text \<open>A sampling order is a shuffle when it returns each position of the table once.\<close>

definition is_shuffle :: "(int \<Rightarrow> nat \<Rightarrow> nat list) \<Rightarrow> bool" where
  "is_shuffle sample_order = (\<forall>seed n. mset (sample_order seed n) = mset [0 ..< n])"

lemma create_module_composition:
  "compositions (and_then (create_module name cs d1 desc n) (\<lambda>m. Inr (ms1 @ [m])))
     = compositions (and_then (create_module name cs d2 desc n) (\<lambda>m. Inr (ms2 @ [m])))"
  if "map composition ms1 = map composition ms2"
  using that
  by (cases "sum_credits 0 (assign_times 0 cs)")
     (simp_all add: create_module_def and_then_def compositions_def composition_def Let_def)

lemma block_composition:
  assumes "map composition ms1 = map composition ms2"
  shows "compositions (block g pos m s a name d1 desc n ms1)
           = compositions (block g pos m s a name d2 desc n ms2)"
proof -
  obtain p1 p2 p3 where pos: "pos = (p1, p2, p3)" by (cases pos)
  show ?thesis
  proof (cases "pick m s a p1 p2 p3")
    case (Inl e)
    then show ?thesis using assms
      by (simp add: block_def pos and_then_def compositions_def)
  next
    case (Inr cs)
    show ?thesis
    proof (cases "g \<and> cs \<noteq> []")
      case True
      then show ?thesis
        using create_module_composition [OF assms, of name cs d1 desc n d2] Inr
        by (simp add: block_def pos and_then_def [of "Inr cs"])
    next
      case False
      then show ?thesis using assms Inr
        by (auto simp: block_def pos and_then_def compositions_def)
    qed
  qed
qed

lemma and_then_composition:
  assumes "compositions r1 = compositions r2"
    and "\<And>ms1 ms2. map composition ms1 = map composition ms2
           \<Longrightarrow> compositions (f ms1) = compositions (g ms2)"
  shows "compositions (and_then r1 f) = compositions (and_then r2 g)"
  using assms
  by (cases r1; cases r2) (auto simp: and_then_def compositions_def)

lemma build_modules_composition:
  "compositions (build_modules major d1 ne m s a) = compositions (build_modules major d2 ne m s a)"
  unfolding build_modules_def Let_def
  by (intro and_then_composition block_composition) simp_all

lemma slice_to_map: "map f (slice_to n xs) = slice_to n (map f xs)"
  by (simp add: slice_to_def take_map)

text \<open>
  C6: schedule determinism. The hash of the major and the sampling order are fixed for
  the session; the only thing that differs between two calls with the same profile and
  the same lists is the clock. Two such calls return modules with the same names,
  numbers, courses (in the same order, with the same types and time slots), credits and
  descriptions, or raise the same error. The argument \<open>enrolled_courses\<close> is never read.
\<close>

theorem schedule_deterministic:
  "compositions (generate_smart_schedule py_hash sample_order now1 courses_df student_profile
                   enrolled1 completed_courses limit_modules)
   = compositions (generate_smart_schedule py_hash sample_order now2 courses_df student_profile
                   enrolled2 completed_courses limit_modules)"
proof -
  have slice: "compositions (and_then r1 (\<lambda>modules. Inr (slice_to limit_modules modules)))
             = compositions (and_then r2 (\<lambda>modules. Inr (slice_to limit_modules modules)))"
    if "compositions r1 = compositions r2" for r1 r2
    using that
    by (cases r1; cases r2) (auto simp: and_then_def compositions_def slice_to_map)
  have tail: "compositions (case t of (ne, m, s, a) \<Rightarrow>
                 and_then (build_modules major now1 ne m s a)
                   (\<lambda>modules. Inr (slice_to limit_modules modules)))
            = compositions (case t of (ne, m, s, a) \<Rightarrow>
                 and_then (build_modules major now2 ne m s a)
                   (\<lambda>modules. Inr (slice_to limit_modules modules)))"
    for t :: "bool \<times> row list \<times> row list \<times> row list" and major
  proof -
    obtain ne m s a where t: "t = (ne, m, s, a)" by (cases t)
    show ?thesis
      unfolding t prod.case by (rule slice [OF build_modules_composition])
  qed
  have core: "compositions (case pools major early of (major0, other0) \<Rightarrow>
             and_then (drop_completed completed_courses major0) (\<lambda>major1.
             and_then (drop_completed completed_courses other0) (\<lambda>other1.
               (case typed_lists py_hash sample_order major major1 other1 of
                  (all_nonempty, mandatory, secondary, audit) \<Rightarrow>
                    and_then (build_modules major now1 all_nonempty mandatory secondary audit)
                      (\<lambda>modules. Inr (slice_to limit_modules modules))))))
        = compositions (case pools major early of (major0, other0) \<Rightarrow>
             and_then (drop_completed completed_courses major0) (\<lambda>major1.
             and_then (drop_completed completed_courses other0) (\<lambda>other1.
               (case typed_lists py_hash sample_order major major1 other1 of
                  (all_nonempty, mandatory, secondary, audit) \<Rightarrow>
                    and_then (build_modules major now2 all_nonempty mandatory secondary audit)
                      (\<lambda>modules. Inr (slice_to limit_modules modules))))))"
    for major early
  proof -
    obtain major0 other0 where p: "pools major early = (major0, other0)"
      by (cases "pools major early")
    show ?thesis
    proof (cases "drop_completed completed_courses major0")
      case (Inl e)
      then show ?thesis by (simp add: p and_then_def)
    next
      case major1: (Inr major1)
      show ?thesis
      proof (cases "drop_completed completed_courses other0")
        case (Inl e)
        then show ?thesis
          by (simp add: p major1 and_then_def [of "Inr major1"] and_then_def [of "Inl e"])
      next
        case other1: (Inr other1)
        show ?thesis
          using tail [where t = "typed_lists py_hash sample_order major major1 other1" and major = major]
          by (simp add: p major1 other1
                and_then_def [of "Inr major1"] and_then_def [of "Inr other1"])
      qed
    qed
  qed
  show ?thesis
  proof (cases courses_df)
    case None
    then show ?thesis by (simp add: generate_smart_schedule_def)
  next
    case (Some df)
    show ?thesis
    proof (cases "df_empty df")
      case True
      then show ?thesis by (simp add: generate_smart_schedule_def Some)
    next
      case False
      show ?thesis
        unfolding generate_smart_schedule_def Let_def Some option.case if_not_P [OF False]
        by (rule core)
    qed
  qed
qed


theorem schedule_deterministic_witness:
  "compositions (generate_smart_schedule zero_hash identity_order 0 (Some two_design)
       [(''major'', ''Design'')] None None 4)
   = compositions (generate_smart_schedule zero_hash identity_order (weeks 1) (Some two_design)
       [(''major'', ''Design'')] (Some [Str ''D1'']) None 4)
   \<and> map_sum id (map course_ids) (generate_smart_schedule zero_hash identity_order 0
       (Some two_design) [(''major'', ''Design'')] None None 4)
     = Inr [[Str ''D1''], [Str ''D2'']]"
proof -
  have "map_sum id (map course_ids) (generate_smart_schedule zero_hash identity_order 0
       (Some two_design) [(''major'', ''Design'')] None None 4)
     = Inr [[Str ''D1''], [Str ''D2'']]"
    by code_simp
  then show ?thesis
    using schedule_deterministic [of zero_hash identity_order 0 "Some two_design"
        "[(''major'', ''Design'')]" None None 4 "weeks 1" "Some [Str ''D1'']"]
    by simp
qed

lemma shuffle_two:
  assumes "is_shuffle sample_order"
  shows "sample_order seed 2 = [0, 1] \<or> sample_order seed 2 = [1, 0]"
proof -
  have m: "mset (sample_order seed 2) = {#0, 1#}"
    using assms by (simp add: is_shuffle_def upt_rec numeral_2_eq_2)
  then have "length (sample_order seed 2) = 2"
    by (metis size_mset size_add_mset size_empty numeral_2_eq_2)
  then obtain a b where ab: "sample_order seed 2 = [a, b]"
    by (metis length_0_conv length_Suc_conv numeral_2_eq_2)
  with m have "{#a, b#} = {#0, 1::nat#}" by simp
  then have "(a = 0 \<and> b = 1) \<or> (a = 1 \<and> b = 0)"
    by (auto simp: add_eq_conv_ex)
  with ab show ?thesis by auto
qed


lemma two_design_pools:
  "pools ''Computer Science''
     (early_module_courses
        (if contains (lower (''Bachelor'' @ [CHR 0x27] @ ''s Degree'')) ''bachelor''
         then ''bachelor'' else ''master'') two_design)
   = (two_design, two_design)"
  by code_simp

definition typed_design :: "string \<Rightarrow> nat \<Rightarrow> row" where
  "typed_design t i = design_course (''D'' @ [''12'' ! i]) @ [(''course_type'', Str t)]"

lemma two_design_typed_lists:
  assumes o1: "sample_order (py_hash ''Computer Science'' mod 100) (Suc (Suc 0)) = [a, b]"
    and o2: "sample_order (py_hash ''Computer Science'' mod 100 + 1) (Suc (Suc 0)) = [c, d]"
    and r: "{a, b} = {0, 1}" "{c, d} = {0, 1}"
  shows "typed_lists py_hash sample_order ''Computer Science'' two_design two_design
         = (True, [typed_design ''mandatory'' a, typed_design ''mandatory'' b],
                  [typed_design ''secondary'' c, typed_design ''secondary'' d], [])"
proof -
  have ab: "(a = 0 \<and> b = 1) \<or> (a = 1 \<and> b = 0)" and cd: "(c = 0 \<and> d = 1) \<or> (c = 1 \<and> d = 0)"
    using r by (auto simp: doubleton_eq_iff)
  have rows2: "length (rows two_design) = Suc (Suc 0)"
    by (simp add: two_design_def)
  have m: "rows (set_column ''course_type'' (Str ''mandatory'')
             (sample sample_order (py_hash ''Computer Science'' mod 100) two_design))
           = [typed_design ''mandatory'' a, typed_design ''mandatory'' b]"
    using ab by (auto simp: sample_def set_column_def rows2 o1 two_design_def
        design_course_def typed_design_def)
  have s: "rows (label_other
             (sample sample_order (py_hash ''Computer Science'' mod 100 + 1) two_design))
           = [typed_design ''secondary'' c, typed_design ''secondary'' d]"
    using cd by (auto simp: label_other_def df_empty_def sample_def set_column_def rows2 o2
        two_design_def design_course_def typed_design_def Let_def)
  have t: "of_type ''mandatory'' [typed_design ''mandatory'' a, typed_design ''mandatory'' b,
               typed_design ''secondary'' c, typed_design ''secondary'' d]
             = [typed_design ''mandatory'' a, typed_design ''mandatory'' b]"
       "of_type ''secondary'' [typed_design ''mandatory'' a, typed_design ''mandatory'' b,
               typed_design ''secondary'' c, typed_design ''secondary'' d]
             = [typed_design ''secondary'' c, typed_design ''secondary'' d]"
       "of_type ''audit'' [typed_design ''mandatory'' a, typed_design ''mandatory'' b,
               typed_design ''secondary'' c, typed_design ''secondary'' d] = []"
    by (simp_all add: of_type_def typed_design_def design_course_def get_def)
  show ?thesis
    unfolding typed_lists_def Let_def head_def
    by (simp add: m s t)
qed

lemma typed_design_id: "get (typed_design t i) ''course_id'' NA = Str (''D'' @ [''12'' ! i])"
  by (simp add: typed_design_def design_course_def get_def)

lemma put_other_key: "k \<noteq> k' \<Longrightarrow> get (put k v d) k' x = get d k' x"
  by (induction d) (auto simp: get_def)

lemma assign_times_ids:
  "map (\<lambda>c. get c ''course_id'' NA) (assign_times i cs) = map (\<lambda>c. get c ''course_id'' NA) cs"
  by (induction cs arbitrary: i) (simp_all add: Let_def put_other_key)

lemma typed_design_credits: "get (typed_design t i) ''credits'' (Num 3) = Num 3"
  by (simp add: typed_design_def design_course_def get_def)

lemma two_design_modules:
  "map_sum id (map course_ids)
     (build_modules major now True [typed_design ''mandatory'' a, typed_design ''mandatory'' b]
        [typed_design ''secondary'' c, typed_design ''secondary'' d] [])
   = Inr [[Str (''D'' @ [''12'' ! a]), Str (''D'' @ [''12'' ! c]), Str (''D'' @ [''12'' ! d])],
          [Str (''D'' @ [''12'' ! b])]]"
  by (simp add: build_modules_def block_def pick_def m1_positions_def m2_positions_def
        m3_positions_def m4_positions_def m5_positions_def m6_positions_def m7_positions_def
        iloc_def and_then_def create_module_def Let_def course_ids_def assign_times_ids
        typed_design_id typed_design_credits put_other_key)


lemma two_design_generate:
  assumes o1: "sample_order (py_hash ''Computer Science'' mod 100) (Suc (Suc 0)) = [a, b]"
    and o2: "sample_order (py_hash ''Computer Science'' mod 100 + 1) (Suc (Suc 0)) = [c, d]"
    and r: "{a, b} = {0, 1}" "{c, d} = {0, 1}"
  shows "map_sum id (map course_ids)
           (generate_smart_schedule py_hash sample_order now (Some two_design) [] None None 4)
         = Inr [[Str (''D'' @ [''12'' ! a]), Str (''D'' @ [''12'' ! c]), Str (''D'' @ [''12'' ! d])],
                [Str (''D'' @ [''12'' ! b])]]"
proof -
  have ne: "\<not> df_empty two_design"
    by (simp add: df_empty_def two_design_def)
  have g: "generate_smart_schedule py_hash sample_order now (Some two_design) [] None None 4
           = and_then (build_modules ''Computer Science'' now True
                [typed_design ''mandatory'' a, typed_design ''mandatory'' b]
                [typed_design ''secondary'' c, typed_design ''secondary'' d] [])
               (\<lambda>modules. Inr (slice_to 4 modules))"
    unfolding generate_smart_schedule_def Let_def
    by (simp add: ne profile_get_def two_design_pools [simplified] drop_completed_def
          and_then_def [of "Inr two_design"] two_design_typed_lists [where sample_order = sample_order and py_hash = py_hash, OF o1 o2 r])
  show ?thesis
    using two_design_modules [of "''Computer Science''" now a b c d]
    unfolding g
    by (cases "build_modules ''Computer Science'' now True
                [typed_design ''mandatory'' a, typed_design ''mandatory'' b]
                [typed_design ''secondary'' c, typed_design ''secondary'' d] []")
       (auto simp: and_then_def slice_to_def)
qed

text \<open>
  C7 fails on the code. When no category matches the major, the whole table becomes the
  mandatory pool (line 1940) while the complementary pool still holds every course, so
  the two pools overlap. For a table of two design courses and the default major, and for
  every shuffle, the schedule has two modules and the mandatory course of Module 2 is
  also a course of Module 1.
\<close>

theorem schedule_reuses_course:
  assumes "is_shuffle sample_order"
  shows "\<exists>m1 m2 cid.
           generate_smart_schedule py_hash sample_order now (Some two_design) [] None None 4
             = Inr [m1, m2]
           \<and> cid \<in> set (course_ids m1) \<and> cid \<in> set (course_ids m2)"
proof -
  let ?s = "py_hash ''Computer Science'' mod 100"
  obtain a b where o1: "sample_order ?s (Suc (Suc 0)) = [a, b]" and ab: "{a, b} = {0, 1}"
    using shuffle_two [OF assms, of ?s] by (auto simp: numeral_2_eq_2)
  obtain c d where o2: "sample_order (?s + 1) (Suc (Suc 0)) = [c, d]" and cd: "{c, d} = {0, 1}"
    using shuffle_two [OF assms, of "?s + 1"] by (auto simp: numeral_2_eq_2)
  from two_design_generate [where sample_order = sample_order and py_hash = py_hash
      and now = now, OF o1 o2 ab cd]
  obtain m1 m2 where
    g: "generate_smart_schedule py_hash sample_order now (Some two_design) [] None None 4
          = Inr [m1, m2]"
    and i1: "course_ids m1 = [Str (''D'' @ [''12'' ! a]), Str (''D'' @ [''12'' ! c]),
                              Str (''D'' @ [''12'' ! d])]"
    and i2: "course_ids m2 = [Str (''D'' @ [''12'' ! b])]"
    by (cases "generate_smart_schedule py_hash sample_order now (Some two_design) [] None None 4")
       auto
  have "b = c \<or> b = d" using ab cd by (auto simp: doubleton_eq_iff)
  then have "Str (''D'' @ [''12'' ! b]) \<in> set (course_ids m1)" unfolding i1 by auto
  moreover have "Str (''D'' @ [''12'' ! b]) \<in> set (course_ids m2)" unfolding i2 by simp
  ultimately show ?thesis using g by blast
qed

theorem schedule_reuses_course_witness:
  "is_shuffle identity_order
   \<and> (\<exists>m1 m2 cid.
         generate_smart_schedule zero_hash identity_order 0 (Some two_design) [] None None 4
           = Inr [m1, m2]
         \<and> cid \<in> set (course_ids m1) \<and> cid \<in> set (course_ids m2))"
proof -
  have s: "is_shuffle identity_order"
    by (simp add: is_shuffle_def identity_order_def)
  show ?thesis
    using s schedule_reuses_course [OF s, of zero_hash 0] by simp
qed

lemma empty_table_schedule:
  "df_empty df \<Longrightarrow>
   generate_smart_schedule py_hash sample_order now (Some df) student_profile enrolled
     completed limit_modules = Inr []"
  "generate_smart_schedule py_hash sample_order now None student_profile enrolled
     completed limit_modules = Inr []"
  by (simp_all add: generate_smart_schedule_def)



section \<open>Intent handlers\<close>

text \<open>
  A handler returns the triple (course table, explanations, narrative). The explanations
  are a dictionary from course ids to lists of strings; the lecturer map is a dictionary
  from course ids to lecturer dictionaries, which always carry the keys \<open>name\<close>,
  \<open>job_title\<close> and \<open>company\<close>.
\<close>

type_synonym explanations = "(cell \<times> string list) list"

type_synonym result = "frame \<times> explanations \<times> string"

type_synonym lecturer_map = "(cell \<times> row) list"

fun dict_set :: "'k \<Rightarrow> 'v \<Rightarrow> ('k \<times> 'v) list \<Rightarrow> ('k \<times> 'v) list" where
  "dict_set k v [] = [(k, v)]"
| "dict_set k v ((k', v') # d) = (if k' = k then (k, v) # d else (k', v') # dict_set k v d)"

text \<open>
  \<open>str.upper\<close> on Latin-1, but for the three letters 0xB5, 0xDF and 0xFF, whose upper
  case lies outside Latin-1 and which are left unchanged here.
\<close>

definition upper_char :: "char \<Rightarrow> char" where
  "upper_char c =
     (case map_of (zip (''abcdefghijklmnopqrstuvwxyz'' @ latin1_lower)
                       (''ABCDEFGHIJKLMNOPQRSTUVWXYZ'' @ latin1_upper)) c of
        Some d \<Rightarrow> d | None \<Rightarrow> c)"

definition upper :: "string \<Rightarrow> string" where
  "upper s = map upper_char s"

text \<open>\<open>str.title()\<close>: a letter after a non-letter is upper-cased, any other letter lower-cased.\<close>

fun title_go :: "bool \<Rightarrow> string \<Rightarrow> string" where
  "title_go prev [] = []"
| "title_go prev (c # cs) =
     (if upper_char c \<noteq> c \<or> lower_char c \<noteq> c
      then (if prev then lower_char c else upper_char c) # title_go True cs
      else c # title_go False cs)"

definition title :: "string \<Rightarrow> string" where
  "title s = title_go False s"

text \<open>\<open>f"{query}"\<close> for a query that may be \<open>None\<close>.\<close>

definition fmt_query :: "string option \<Rightarrow> string" where
  "fmt_query query = (case query of None \<Rightarrow> ''None'' | Some q \<Rightarrow> q)"

text \<open>\<open>cell[:n]\<close> on a string cell; any other cell raises \<open>TypeError\<close>.\<close>

definition str_prefix :: "nat \<Rightarrow> cell \<Rightarrow> error + string" where
  "str_prefix n c = (case c of Str s \<Rightarrow> Inr (take n s) | _ \<Rightarrow> Inl TypeError)"

text \<open>
  Regular expressions. \<open>Series.str.contains(pat, case=False, na=False)\<close> of pandas
  compiles \<open>pat\<close> with \<open>re.IGNORECASE\<close> and searches it in every string cell; a missing
  or non-string cell gives \<open>False\<close>. Python's \<open>re\<close> module is a parameter of the
  handlers: \<open>re_compile pat\<close> is \<open>None\<close> when \<open>pat\<close> is not a valid pattern (the
  call raises \<open>re.error\<close>), and otherwise the test that the pattern is found in a string.
\<close>

type_synonym regex = "string \<Rightarrow> (string \<Rightarrow> bool) option"

definition str_search :: "(string \<Rightarrow> bool) \<Rightarrow> cell \<Rightarrow> bool" where
  "str_search found c = (case c of Str t \<Rightarrow> found t | _ \<Rightarrow> False)"

text \<open>
  The accessor \<open>df[col].str\<close> raises \<open>AttributeError\<close> on a column that holds values
  but no string among them. A column without any value is taken to be of object type,
  as pandas creates it from no data, so the accessor accepts it.
\<close>

definition str_accessor_ok :: "string \<Rightarrow> frame \<Rightarrow> bool" where
  "str_accessor_ok col df =
     (let cells = filter (\<lambda>c. c \<noteq> NA) (map (\<lambda>r. get r col NA) (rows df))
      in cells = [] \<or> list_ex (\<lambda>c. case c of Str t \<Rightarrow> True | _ \<Rightarrow> False) cells)"

text \<open>\<open>df[df[col].str.contains(pat, case=False, na=False)]\<close>, with its three ways to
  raise, in the order in which Python meets them.\<close>

definition where_contains :: "regex \<Rightarrow> string \<Rightarrow> string \<Rightarrow> frame \<Rightarrow> error + frame" where
  "where_contains re_compile col pat df =
     need_column col df
       (if \<not> str_accessor_ok col df then Inl AttributeError
        else case re_compile pat of
               None \<Rightarrow> Inl ReError
             | Some found \<Rightarrow> Inr (filter_rows (\<lambda>r. str_search found (get r col NA)) df))"

subsection \<open>The unknown-query handler\<close>

text \<open>
  \<open>_handle_unknown_query\<close>. The three calls of \<open>random.choice\<close> are the three
  numbers \<open>draws\<close>, each read modulo the number of phrases.
\<close>

definition openings :: "string option \<Rightarrow> string list" where
  "openings query =
     [(''Thanks for asking about **'' @ [CHR 0x22]) @ fmt_query query @ ([CHR 0x22] @ ''**! ''),
      (''Interesting question about **'' @ [CHR 0x22]) @ fmt_query query @ ([CHR 0x22] @ ''**! ''),
      (''I appreciate you asking about **'' @ [CHR 0x22]) @ fmt_query query @ ([CHR 0x22] @ ''**. ''),
      (''Good question! You asked about **'' @ [CHR 0x22]) @ fmt_query query @ ([CHR 0x22] @ ''**. '')]"

definition limitations :: "string list" where
  "limitations =
     [(''I'' @ [CHR 0x27] @ ''m still learning and my knowledge is somewhat limited right now. ''),
      (''My vocabulary is growing every day, but I don'' @ [CHR 0x27] @ ''t have an answer for this specific question yet. ''),
      (''I'' @ [CHR 0x27] @ ''m an AI that'' @ [CHR 0x27] @ ''s continuously improving, and while I can'' @ [CHR 0x27] @ ''t fully answer this right now, ''),
      (''I don'' @ [CHR 0x27] @ ''t quite understand this question at the moment, but I'' @ [CHR 0x27] @ ''m learning more each day! '')]"

definition closings :: "string list" where
  "closings =
     [(''Try asking one of these, and I'' @ [CHR 0x27] @ ''ll give you a detailed answer! My knowledge is growing, and I'' @ [CHR 0x27] @ ''m here to support your academic journey.''),
      (''Feel free to rephrase your question using the examples above. I'' @ [CHR 0x27] @ ''m getting smarter every day and want to help you succeed!''),
      (''Don'' @ [CHR 0x27] @ ''t hesitate to ask in different words - I might understand better! I'' @ [CHR 0x27] @ ''m continuously learning to serve you better.''),
      (''Use the quick buttons below or try one of these questions. I'' @ [CHR 0x27] @ ''m improving constantly and committed to helping you!'')]"

definition alternatives_heading :: string where
  "alternatives_heading = (''**I'' @ [CHR 0x27] @ ''m really good at helping with:**'' @ [CHR 0x0A, CHR 0x0A])"

definition alternatives :: "string \<Rightarrow> string" where
  "alternatives major = concat
     [''**Finding Courses ('', major, (''):**'' @ [CHR 0x0A]),
      (''Ask me things like:'' @ [CHR 0x0A]),
      (''- '' @ [CHR 0x22] @ ''software'' @ [CHR 0x22] @ '' or '' @ [CHR 0x22] @ ''business'' @ [CHR 0x22] @ '' or '' @ [CHR 0x22] @ ''data science'' @ [CHR 0x22, CHR 0x0A]),
      (''- '' @ [CHR 0x22] @ ''ML courses'' @ [CHR 0x22, CHR 0x0A]),
      (''- '' @ [CHR 0x22] @ ''What courses should I take?'' @ [CHR 0x22, CHR 0x0A]),
      (''- '' @ [CHR 0x22] @ ''Show me programming classes'' @ [CHR 0x22, CHR 0x0A, CHR 0x0A]),
      (''**Class Schedules & Times:**'' @ [CHR 0x0A]),
      (''- '' @ [CHR 0x22] @ ''Morning classes'' @ [CHR 0x22, CHR 0x0A]),
      (''- '' @ [CHR 0x22] @ ''Evening courses'' @ [CHR 0x22, CHR 0x0A]),
      (''- '' @ [CHR 0x22] @ ''When is [course name]?'' @ [CHR 0x22, CHR 0x0A, CHR 0x0A]),
      (''**Instructors & Faculty:**'' @ [CHR 0x0A]),
      (''- '' @ [CHR 0x22] @ ''Lecturers'' @ [CHR 0x22, CHR 0x0A]),
      (''- '' @ [CHR 0x22] @ ''Who teaches machine learning?'' @ [CHR 0x22, CHR 0x0A]),
      (''- '' @ [CHR 0x22] @ ''Tell me about the professors'' @ [CHR 0x22, CHR 0x0A, CHR 0x0A]),
      (''**Student Support & Guidance:**'' @ [CHR 0x0A]),
      (''- '' @ [CHR 0x22] @ ''What if I skip mandatory class?'' @ [CHR 0x22, CHR 0x0A]),
      (''- '' @ [CHR 0x22] @ ''I have an issue'' @ [CHR 0x22] @ '' or '' @ [CHR 0x22] @ ''I need help'' @ [CHR 0x22, CHR 0x0A]),
      (''- '' @ [CHR 0x22] @ ''How to prepare for [course name]'' @ [CHR 0x22, CHR 0x0A]),
      (''- '' @ [CHR 0x22] @ ''What happens if I miss too many classes?'' @ [CHR 0x22, CHR 0x0A, CHR 0x0A]),
      (''**Academic Information:**'' @ [CHR 0x0A]),
      (''- '' @ [CHR 0x22] @ ''How long is bachelor?'' @ [CHR 0x22] @ '' or '' @ [CHR 0x22] @ ''program duration'' @ [CHR 0x22, CHR 0x0A]),
      (''- '' @ [CHR 0x22] @ ''What is mandatory vs audit?'' @ [CHR 0x22, CHR 0x0A]),
      (''- '' @ [CHR 0x22] @ ''Attendance policy'' @ [CHR 0x22, CHR 0x0A]),
      (''- '' @ [CHR 0x22] @ ''Career advice'' @ [CHR 0x22, CHR 0x0A, CHR 0x0A])]"

definition career_section :: "string \<Rightarrow> string" where
  "career_section career_goal =
     (if career_goal \<noteq> [] then concat
        [''**Your Career Goal ('', career_goal, (''):**'' @ [CHR 0x0A]),
         (''- '' @ [CHR 0x22] @ ''Courses for ''), career_goal, [CHR 0x22, CHR 0x0A],
         (''- '' @ [CHR 0x22] @ ''Skills needed for ''), career_goal, [CHR 0x22, CHR 0x0A],
         (''- '' @ [CHR 0x22] @ ''Best path to become ''), career_goal, [CHR 0x22, CHR 0x0A, CHR 0x0A]]
      else [])"

definition handle_unknown_query ::
  "nat \<times> nat \<times> nat \<Rightarrow> string option \<Rightarrow> string \<Rightarrow> string \<Rightarrow> result" where
  "handle_unknown_query draws query major career_goal =
     (case draws of (d1, d2, d3) \<Rightarrow>
        (empty_frame, [],
         concat [openings query ! (d1 mod 4), limitations ! (d2 mod 4),
                 (''Let me guide you to what I can help with.'' @ [CHR 0x0A, CHR 0x0A]),
                 alternatives_heading, alternatives major, career_section career_goal,
                 closings ! (d3 mod 4)]))"

subsection \<open>The general-information handler\<close>

definition common_words :: "string list" where
  "common_words = [''course'', ''class'', ''learn'', ''study'', ''teach'', ''help'', ''show'', ''find'', ''about'', ''what'', ''how'', ''when'', ''where'', ''who'']"

definition known_topics :: "string list" where
  "known_topics = [''machine learning'', ''data science'', ''computer science'', ''cybersecurity'', ''cyber security'', ''programming'', ''web'', ''development'', ''python'', ''java'', ''javascript'', ''database'', ''ai'', ''artificial'', ''software'', ''business'', ''design'', ''marketing'', ''frontend'', ''backend'', ''mobile'']"

definition major_keywords :: "(string \<times> string list) list" where
  "major_keywords =
     [(''business'', [''business'', ''entrepreneurship'', ''management'', ''mba'']),
      (''data science'', [''data science'', ''data analytics'', ''analytics'']),
      (''computer science'', [''computer science'', ''cs'', ''computing'']),
      (''cybersecurity'', [''cybersecurity'', ''cyber security'', ''security'', ''infosec'']),
      (''design'', [''design'', ''ux'', ''ui'', ''interaction design'']),
      (''marketing'', [''marketing'', ''digital marketing'', ''social media'']),
      (''software development'', [''software development'', ''software engineering'', ''programming'']),
      (''web development'', [''web development'', ''web dev'', ''frontend'', ''backend'', ''fullstack'']),
      (''mobile'', [''mobile'', ''app development'', ''android'', ''ios''])]"

text \<open>The first key of a keyword table one of whose keywords occurs in the text.\<close>

fun first_key :: "(string \<times> string list) list \<Rightarrow> string \<Rightarrow> string option" where
  "first_key [] query_lower = None"
| "first_key ((name, keywords) # rest) query_lower =
     (if any_in keywords query_lower then Some name else first_key rest query_lower)"

text \<open>
  The search inside the \<open>try\<close> block (lines 788-807); \<open>None\<close> when it raises (no
  table, a missing column, a column without strings, an invalid pattern), which the bare
  \<open>except\<close> turns into the unknown-query result. The query is the pattern.
\<close>

definition search_columns :: "string list" where
  "search_columns = [''course_name'', ''course_description'', ''skills_covered_str'', ''category'']"

definition relevant_courses ::
  "regex \<Rightarrow> frame option \<Rightarrow> string \<Rightarrow> string option \<Rightarrow> frame option" where
  "relevant_courses re_compile courses_df search_query target_major =
     (case courses_df of
        None \<Rightarrow> None
      | Some df \<Rightarrow>
          if \<not> set search_columns \<subseteq> set (columns df) then None
          else if \<not> list_all (\<lambda>col. str_accessor_ok col df) search_columns then None
          else
            (case re_compile search_query of
               None \<Rightarrow> None
             | Some found \<Rightarrow>
                 (let relevant = filter_rows
                        (\<lambda>r. list_ex (\<lambda>col. str_search found (get r col NA)) search_columns) df
                  in case target_major of
                       None \<Rightarrow> Some (head 8 relevant)
                     | Some tm \<Rightarrow>
                         if \<not> df_empty relevant then
                           (case where_contains re_compile ''category'' tm relevant of
                              Inl e \<Rightarrow> None
                            | Inr major_specific \<Rightarrow>
                                Some (head 8 (if \<not> df_empty major_specific then major_specific
                                              else relevant)))
                         else Some (head 8 relevant))))"

text \<open>The loop over the found courses (lines 821-839), threading the narrative and the
  explanations.\<close>

fun general_info_lines ::
  "lecturer_map \<Rightarrow> string \<Rightarrow> nat \<Rightarrow> row list \<Rightarrow> explanations \<times> string
    \<Rightarrow> error + explanations \<times> string" where
  "general_info_lines lecturers major idx [] acc = Inr acc"
| "general_info_lines lecturers major idx (course # rest) (explanations, response) =
     and_then (subscript course ''course_id'') (\<lambda>course_id.
     and_then (subscript course ''course_name'') (\<lambda>course_name.
       (let r1 = response @ digits idx @ ''. '' @ py_str course_name @ [CHR 0x0A];
            r2 = (case map_of lecturers course_id of
                    Some lecturer \<Rightarrow>
                      r1 @ ''   Instructor: '' @ py_str (get lecturer ''name'' NA) @ '' (''
                         @ py_str (get lecturer ''job_title'' NA) @ '') from ''
                         @ py_str (get lecturer ''company'' NA) @ [CHR 0x0A]
                  | None \<Rightarrow> r1);
            r3 = r2 @ ''   Level: ''
                    @ py_str (get course ''estimated_difficulty'' (Str ''Intermediate''))
                    @ '' | Schedule: '' @ py_str (get course ''class_time'' (Str ''TBD''))
                    @ [CHR 0x0A]
        in and_then (str_prefix 120 (get course ''course_description'' (Str ''''))) (\<lambda>d.
             general_info_lines lecturers major (Suc idx) rest
               (dict_set course_id
                  [''Perfect for '' @ major @ '' students'', ''Taught by industry expert'',
                   ''Practical, hands-on approach''] explanations,
                r3 @ ''   '' @ d @ (''...'' @ [CHR 0x0A, CHR 0x0A]))))))"

definition handle_general_info_query ::
  "nat \<times> nat \<times> nat \<Rightarrow> regex \<Rightarrow> frame option \<Rightarrow> lecturer_map \<Rightarrow> string \<Rightarrow> string \<Rightarrow> string \<Rightarrow> string
    \<Rightarrow> string \<Rightarrow> error + result" where
  "handle_general_info_query draws re_compile courses_df lecturers query major career_goal
       experience_level program =
     (let query_lower = strip (lower query);
          has_common_word = any_in common_words query_lower;
          has_known_topic = any_in known_topics query_lower
      in
      if length query_lower < 3 then Inr (handle_unknown_query draws (Some query) major career_goal)
      else if \<not> has_common_word \<and> \<not> has_known_topic \<and> length (split query) \<le> 3
        then Inr (handle_unknown_query draws (Some query) major career_goal)
      else
        (let target_major = first_key major_keywords query_lower in
         case relevant_courses re_compile courses_df query_lower target_major of
           None \<Rightarrow> Inr (handle_unknown_query draws (Some query) major career_goal)
         | Some relevant \<Rightarrow>
             if df_empty relevant
             then Inr (handle_unknown_query draws (Some query) major career_goal)
             else
               (let response0 =
                      (case target_major of
                         Some tm \<Rightarrow> ''**'' @ title tm @ ('' Courses:**'' @ [CHR 0x0A, CHR 0x0A])
                            @ ''Great choice! Here are the best courses for '' @ tm @ ('':'' @ [CHR 0x0A, CHR 0x0A])
                       | None \<Rightarrow> ''**Courses for: '' @ query @ (''**'' @ [CHR 0x0A, CHR 0x0A]))
                in and_then (general_info_lines lecturers major 1 (rows relevant) ([], response0))
                     (\<lambda>(explanations, response).
                        and_then (and_then (iloc (rows relevant) 0)
                                    (\<lambda>first. subscript first ''course_name'')) (\<lambda>first_name.
                          Inr (relevant, explanations,
                               response @ ([CHR 0x0A] @ ''For a '') @ experience_level
                                 @ ('' student, I'' @ [CHR 0x27] @ ''d recommend starting with '')
                                 @ py_str first_name @ ''. ''
                                 @ ''It provides a solid foundation. Would you like to know about prerequisites or course combinations?''))))))"

subsection \<open>The generic recommendation handler\<close>

text \<open>
  \<open>_handle_course_recommendation\<close>. Three things are parameters: \<open>argsort\<close>, the
  order in which \<open>sort_values\<close> of pandas (default sorting kind) returns the positions of
  a score column, with its \<open>ascending\<close> flag; and \<open>explain\<close> and \<open>respond\<close>, the
  functions \<open>_generate_detailed_explanations\<close> and \<open>_generate_conversational_response\<close>.
  The whole body stands in a \<open>try\<close> block: \<open>recommendation_body\<close> is its value, and any
  exception becomes the unknown-query result.
\<close>

fun score_all ::
  "string \<Rightarrow> string \<Rightarrow> string \<Rightarrow> string \<Rightarrow> string option \<Rightarrow> row list \<Rightarrow> error + int list" where
  "score_all major career_goal experience_level program query [] = Inr []"
| "score_all major career_goal experience_level program query (course # rest) =
     and_then (score_course major career_goal experience_level program query course) (\<lambda>score.
     and_then (score_all major career_goal experience_level program query rest) (\<lambda>scores.
       Inr (score # scores)))"

definition score_courses ::
  "(bool \<Rightarrow> int list \<Rightarrow> nat list) \<Rightarrow> frame \<Rightarrow> string \<Rightarrow> string \<Rightarrow> string \<Rightarrow> string
    \<Rightarrow> string option \<Rightarrow> error + frame" where
  "score_courses argsort courses major career_goal experience_level program query =
     and_then (score_all major career_goal experience_level program query (rows courses))
       (\<lambda>scores.
          (let scored = map (\<lambda>(r, s). put ''relevance_score'' (Num s) r) (zip (rows courses) scores)
           in Inr \<lparr>columns = (if ''relevance_score'' \<in> set (columns courses) then columns courses
                               else columns courses @ [''relevance_score'']),
                   rows = map (\<lambda>i. scored ! i) (argsort False scores)\<rparr>))"

text \<open>Lines 1678-1683: the courses of the major, or every course when there is none.\<close>

definition candidate_courses :: "regex \<Rightarrow> frame option \<Rightarrow> string \<Rightarrow> error + frame" where
  "candidate_courses re_compile courses_df major =
     (case courses_df of
        None \<Rightarrow> Inl TypeError
      | Some df \<Rightarrow>
          and_then (where_contains re_compile ''category'' major df) (\<lambda>matching.
            Inr (if df_empty matching then df else matching)))"

definition recommendation_body ::
  "regex \<Rightarrow> (bool \<Rightarrow> int list \<Rightarrow> nat list)
    \<Rightarrow> (frame \<Rightarrow> string \<Rightarrow> string \<Rightarrow> string \<Rightarrow> string \<Rightarrow> string option \<Rightarrow> error + explanations)
    \<Rightarrow> (frame \<Rightarrow> explanations \<Rightarrow> string \<Rightarrow> string \<Rightarrow> string option \<Rightarrow> error + string)
    \<Rightarrow> frame option \<Rightarrow> string option \<Rightarrow> string \<Rightarrow> string \<Rightarrow> string \<Rightarrow> string \<Rightarrow> int
    \<Rightarrow> error + result option" where
  "recommendation_body re_compile argsort explain respond courses_df query major career_goal
       experience_level program limit =
     and_then (candidate_courses re_compile courses_df major) (\<lambda>major_courses.
       if df_empty major_courses then Inr None
       else
         and_then (score_courses argsort major_courses major career_goal
                     experience_level program query) (\<lambda>scored_courses.
           (let top_courses = scored_courses\<lparr>rows := slice_to limit (rows scored_courses)\<rparr>
            in if df_empty top_courses \<or> length (rows top_courses) < 3 then Inr None
               else
                 and_then (explain top_courses major career_goal experience_level
                             program query) (\<lambda>explanations.
                 and_then (respond top_courses explanations major career_goal query)
                   (\<lambda>ai_response. Inr (Some (top_courses, explanations, ai_response)))))))"

definition handle_course_recommendation ::
  "nat \<times> nat \<times> nat \<Rightarrow> regex \<Rightarrow> (bool \<Rightarrow> int list \<Rightarrow> nat list)
    \<Rightarrow> (frame \<Rightarrow> string \<Rightarrow> string \<Rightarrow> string \<Rightarrow> string \<Rightarrow> string option \<Rightarrow> error + explanations)
    \<Rightarrow> (frame \<Rightarrow> explanations \<Rightarrow> string \<Rightarrow> string \<Rightarrow> string option \<Rightarrow> error + string)
    \<Rightarrow> frame option \<Rightarrow> string option \<Rightarrow> string \<Rightarrow> string \<Rightarrow> string \<Rightarrow> string \<Rightarrow> int
    \<Rightarrow> result" where
  "handle_course_recommendation draws re_compile argsort explain respond courses_df query major
       career_goal experience_level program limit =
     (case recommendation_body re_compile argsort explain respond courses_df query major
             career_goal experience_level program limit of
        Inr (Some r) \<Rightarrow> r
      | Inr None \<Rightarrow> handle_unknown_query draws query major career_goal
      | Inl e \<Rightarrow> handle_unknown_query draws query major career_goal)"

subsection \<open>The program-information handler\<close>

definition program_mappings :: "(string \<times> string list) list" where
  "program_mappings =
     [(''Computer Science'', [''computer science'', ''cs'', ''computing'']),
      (''Data Science'', [''data science'', ''data analytics'', ''analytics'']),
      (''Cyber Security'', [''cyber security'', ''cybersecurity'', ''infosec'', ''security'']),
      (''Front-End Development'', [''front-end development'', ''frontend development'', ''frontend'', ''front-end'', ''web development'']),
      (''Interaction Design'', [''interaction design'', ''ux design'', ''ui design'', ''design'']),
      (''Digital Marketing'', [''digital marketing'', ''marketing'']),
      (''High-Tech Entrepreneurship'', [''entrepreneurship'', ''high-tech entrepreneurship'', ''business'', ''startup'']),
      (''Digital Transformation'', [''digital transformation'', ''transformation'']),
      (''Product Management'', [''product management'', ''pm'']),
      (''Fintech'', [''fintech'', ''financial technology'']),
      (''Applied Data and Computer Science'', [''applied data'', ''applied computer science''])]"

definition no_program_courses :: "string \<Rightarrow> string" where
  "no_program_courses target_program = concat
     [(''I couldn'' @ [CHR 0x27] @ ''t find courses specifically for ''), target_program, (''.'' @ [CHR 0x0A, CHR 0x0A]),
      (''Available programs include:'' @ [CHR 0x0A]),
      (''- Computer Science'' @ [CHR 0x0A]), (''- Data Science'' @ [CHR 0x0A]), (''- Cyber Security'' @ [CHR 0x0A]),
      (''- Front-End Development'' @ [CHR 0x0A]), (''- Interaction Design'' @ [CHR 0x0A]), (''- Digital Marketing'' @ [CHR 0x0A]),
      (''- High-Tech Entrepreneurship'' @ [CHR 0x0A]), (''- Fintech'' @ [CHR 0x0A]), (''- Product Management'' @ [CHR 0x0A]),
      (''- Digital Transformation'' @ [CHR 0x0A, CHR 0x0A]),
      ''Which program would you like to learn about?'']"

text \<open>\<open>df[col] = series\<close> for a column computed row by row.\<close>

definition set_column_by :: "string \<Rightarrow> (row \<Rightarrow> cell) \<Rightarrow> frame \<Rightarrow> frame" where
  "set_column_by k f df =
     \<lparr>columns = (if k \<in> set (columns df) then columns df else columns df @ [k]),
      rows = map (\<lambda>r. put k (f r) r) (rows df)\<rparr>"

definition type_order :: "row \<Rightarrow> int" where
  "type_order r =
     (let t = get r ''course_type'' NA in
      if t = Str ''mandatory'' then 1 else if t = Str ''secondary'' then 2
      else if t = Str ''audit'' then 3 else 4)"

fun mandatory_lines ::
  "lecturer_map \<Rightarrow> string \<Rightarrow> nat \<Rightarrow> row list \<Rightarrow> explanations \<times> string
    \<Rightarrow> error + explanations \<times> string" where
  "mandatory_lines lecturers target_program idx [] acc = Inr acc"
| "mandatory_lines lecturers target_program idx (course # rest) (explanations, response) =
     and_then (subscript course ''course_id'') (\<lambda>course_id.
     and_then (subscript course ''course_name'') (\<lambda>course_name.
       (let r1 = response @ digits idx @ ''. '' @ py_str course_name @ '' ('' @ py_str course_id
                   @ ('')'' @ [CHR 0x0A])
                   @ ''   Credits: '' @ py_str (get course ''credits'' (Num 6)) @ '' | Level: ''
                   @ py_str (get course ''estimated_difficulty'' (Str ''Intermediate'')) @ [CHR 0x0A]
                   @ ''   Schedule: '' @ py_str (get course ''class_time'' (Str ''TBD'')) @ [CHR 0x0A];
            r2 = (case map_of lecturers course_id of
                    Some lecturer \<Rightarrow>
                      r1 @ ''   Instructor: '' @ py_str (get lecturer ''name'' NA) @ [CHR 0x0A]
                  | None \<Rightarrow> r1)
        in and_then (str_prefix 100 (get course ''course_description'' (Str ''''))) (\<lambda>d.
             mandatory_lines lecturers target_program (Suc idx) rest
               (dict_set course_id
                  [''Mandatory course for '' @ target_program, ''Required for graduation'',
                   ''Taught by industry expert''] explanations,
                r2 @ ''   '' @ d @ (''...'' @ [CHR 0x0A, CHR 0x0A]))))))"

fun secondary_lines ::
  "string \<Rightarrow> nat \<Rightarrow> row list \<Rightarrow> explanations \<times> string \<Rightarrow> error + explanations \<times> string" where
  "secondary_lines target_program idx [] acc = Inr acc"
| "secondary_lines target_program idx (course # rest) (explanations, response) =
     and_then (subscript course ''course_id'') (\<lambda>course_id.
     and_then (subscript course ''course_name'') (\<lambda>course_name.
       secondary_lines target_program (Suc idx) rest
         (dict_set course_id
            [''Elective for '' @ target_program, ''Counts towards credits''] explanations,
          response @ digits idx @ ''. '' @ py_str course_name @ '' ('' @ py_str course_id
            @ ('')'' @ [CHR 0x0A])
            @ ''   Credits: '' @ py_str (get course ''credits'' (Num 4)) @ '' | Level: ''
            @ py_str (get course ''estimated_difficulty'' (Str ''Intermediate'')) @ [CHR 0x0A]
            @ ''   Schedule: '' @ py_str (get course ''class_time'' (Str ''TBD'')) @ [CHR 0x0A, CHR 0x0A])))"

fun audit_lines ::
  "nat \<Rightarrow> row list \<Rightarrow> explanations \<times> string \<Rightarrow> error + explanations \<times> string" where
  "audit_lines idx [] acc = Inr acc"
| "audit_lines idx (course # rest) (explanations, response) =
     and_then (subscript course ''course_id'') (\<lambda>course_id.
     and_then (subscript course ''course_name'') (\<lambda>course_name.
       audit_lines (Suc idx) rest
         (dict_set course_id
            [''Audit course - no credits'', ''For learning and exploration''] explanations,
          response @ digits idx @ ''. '' @ py_str course_name @ '' ('' @ py_str course_id
            @ ('')'' @ [CHR 0x0A, CHR 0x0A]))))"

text \<open>Lines 1567-1576: the program the query names, else the student's program or major.\<close>

definition target_program_of :: "string \<Rightarrow> string \<Rightarrow> string \<Rightarrow> string" where
  "target_program_of query program major =
     (case first_key program_mappings (lower query) of
        Some p \<Rightarrow> p
      | None \<Rightarrow> if program \<noteq> [] then program else major)"

definition handle_program_info_query ::
  "regex \<Rightarrow> (bool \<Rightarrow> int list \<Rightarrow> nat list) \<Rightarrow> frame option \<Rightarrow> lecturer_map \<Rightarrow> string \<Rightarrow> string \<Rightarrow> string
    \<Rightarrow> string \<Rightarrow> string \<Rightarrow> error + result" where
  "handle_program_info_query re_compile argsort courses_df lecturers query major career_goal
       experience_level program =
     (let target_program = target_program_of query program major
      in
      case courses_df of
        None \<Rightarrow> Inl TypeError
      | Some df \<Rightarrow>
          and_then (where_contains re_compile ''category'' target_program df)
            (\<lambda>program_courses0.
                if df_empty program_courses0
                then Inr (empty_frame, [], no_program_courses target_program)
                else
                  need_column ''course_type'' program_courses0
                    (let ordered = set_column_by ''type_order'' (\<lambda>r. Num (type_order r))
                                     program_courses0;
                         program_courses = ordered\<lparr>rows :=
                             map (\<lambda>i. rows ordered ! i)
                               (argsort True (map type_order (rows ordered)))\<rparr>;
                         n_all = length (rows program_courses);
                         mandatory = of_type ''mandatory'' (rows program_courses);
                         secondary = of_type ''secondary'' (rows program_courses);
                         audit = of_type ''audit'' (rows program_courses);
                         response0 = ''**'' @ target_program @ ('' Program**'' @ [CHR 0x0A, CHR 0x0A])
                            @ ''Total Courses Available: '' @ digits n_all @ [CHR 0x0A, CHR 0x0A]
                     in
                     and_then
                       (if mandatory \<noteq> []
                        then mandatory_lines lecturers target_program 1 (take 10 mandatory)
                               ([], response0 @ ''**MANDATORY COURSES ('' @ digits (length mandatory)
                                    @ ('' courses):**'' @ [CHR 0x0A])
                                    @ (''These are required for graduation:'' @ [CHR 0x0A, CHR 0x0A]))
                        else Inr ([], response0)) (\<lambda>(e1, r1).
                     and_then
                       (if secondary \<noteq> []
                        then secondary_lines target_program 1 (take 10 secondary)
                               (e1, r1 @ ([CHR 0x0A] @ ''**SECONDARY/ELECTIVE COURSES ('')
                                    @ digits (length secondary) @ ('' courses):**'' @ [CHR 0x0A])
                                    @ (''Recommended courses to enhance your skills:'' @ [CHR 0x0A, CHR 0x0A]))
                        else Inr (e1, r1)) (\<lambda>(e2, r2).
                     and_then
                       (if audit \<noteq> []
                        then audit_lines 1 (take 5 audit)
                               (e2, r2 @ ([CHR 0x0A] @ ''**AUDIT COURSES ('') @ digits (length audit)
                                    @ ('' courses):**'' @ [CHR 0x0A])
                                    @ (''Additional learning opportunities (no credits):'' @ [CHR 0x0A, CHR 0x0A]))
                        else Inr (e2, r2)) (\<lambda>(e3, r3).
                       Inr (head 15 program_courses, e3,
                            r3 @ ([CHR 0x0A] @ ''**Program Highlights:**'' @ [CHR 0x0A])
                               @ ''- Total courses: '' @ digits n_all @ [CHR 0x0A]
                               @ ''- Mandatory courses: '' @ digits (length mandatory) @ [CHR 0x0A]
                               @ ''- Elective courses: '' @ digits (length secondary) @ [CHR 0x0A]
                               @ (''- Duration: 3 weeks per course'' @ [CHR 0x0A])
                               @ (''- Schedule: Morning, Afternoon, or Evening slots'' @ [CHR 0x0A, CHR 0x0A])
                               @ ''Would you like details on any specific course or help planning your module schedule?'')))))))"

subsection \<open>The course-type handler\<close>

definition course_type_text :: string where
  "course_type_text = concat
     [(''Let me explain the different course types and requirements:'' @ [CHR 0x0A, CHR 0x0A]),
      (''COURSE TYPES:'' @ [CHR 0x0A, CHR 0x0A]),
      (''1. Mandatory Courses'' @ [CHR 0x0A]),
      (''   - Required courses you MUST take for your degree'' @ [CHR 0x0A]),
      (''   - Count towards your graduation requirements'' @ [CHR 0x0A]),
      (''   - Graded and recorded on your transcript'' @ [CHR 0x0A]),
      (''   - Attendance is mandatory (3 or more absences = FAIL)'' @ [CHR 0x0A, CHR 0x0A]),
      (''2. Secondary Courses'' @ [CHR 0x0A]),
      (''   - Recommended elective courses for your major'' @ [CHR 0x0A]),
      (''   - Count towards your credits'' @ [CHR 0x0A]),
      (''   - Graded and recorded on transcript'' @ [CHR 0x0A]),
      (''   - Attendance is mandatory (3 or more absences = FAIL)'' @ [CHR 0x0A]),
      (''   - You can choose which secondary courses to take'' @ [CHR 0x0A, CHR 0x0A]),
      (''3. Audit Courses'' @ [CHR 0x0A]),
      (''   - Optional courses you can take for learning only'' @ [CHR 0x0A]),
      (''   - NOT graded, marked as '' @ [CHR 0x27] @ ''Audit'' @ [CHR 0x27] @ '' on transcript'' @ [CHR 0x0A]),
      (''   - Do NOT count towards your degree credits'' @ [CHR 0x0A]),
      (''   - Attendance is recommended but flexible'' @ [CHR 0x0A]),
      (''   - Great for exploring interests without GPA impact'' @ [CHR 0x0A]),
      (''   - You can still access all course materials and lectures'' @ [CHR 0x0A, CHR 0x0A]),
      (''ATTENDANCE POLICY:'' @ [CHR 0x0A]),
      (''- **3 or more absences = AUTOMATIC FAIL** (no exceptions)'' @ [CHR 0x0A]),
      (''- **Being 10 minutes late = 1 absence** (punctuality is critical)'' @ [CHR 0x0A]),
      (''- Missing 3+ consecutive classes without notice: Warning issued'' @ [CHR 0x0A]),
      (''- Audit courses: Flexible attendance (no strict requirements)'' @ [CHR 0x0A, CHR 0x0A]),
      (''WARNINGS:'' @ [CHR 0x0A]),
      (''- 1st Warning: Email notification about low attendance'' @ [CHR 0x0A]),
      (''- 2nd Warning: Meeting with academic advisor required'' @ [CHR 0x0A]),
      (''- **3rd Absence: Automatic course failure** (no exceptions)'' @ [CHR 0x0A]),
      (''- Academic probation may apply for repeated failures'' @ [CHR 0x0A, CHR 0x0A])]"

fun example_lines :: "row list \<Rightarrow> string \<Rightarrow> error + string" where
  "example_lines [] response = Inr response"
| "example_lines (course # rest) response =
     (let course_type = get course ''course_type'' (Str ''mandatory'') in
      and_then (subscript course ''course_name'') (\<lambda>course_name.
      and_then (subscript course ''course_id'') (\<lambda>course_id.
        case course_type of
          Str t \<Rightarrow> example_lines rest
                     (response @ ''- '' @ py_str course_name @ '' ('' @ py_str course_id @ ''): ''
                        @ upper t @ [CHR 0x0A])
        | _ \<Rightarrow> Inl AttributeError)))"

definition handle_course_type_explanation ::
  "regex \<Rightarrow> frame option \<Rightarrow> string \<Rightarrow> string \<Rightarrow> error + result" where
  "handle_course_type_explanation re_compile courses_df query major =
     (case courses_df of
        None \<Rightarrow> Inl TypeError
      | Some df \<Rightarrow>
          and_then (where_contains re_compile ''category'' major df) (\<lambda>matching.
            (let major_courses = head 3 matching
             in and_then
                  (if \<not> df_empty major_courses
                   then example_lines (rows major_courses)
                          (course_type_text @ ([CHR 0x0A] @ ''EXAMPLE from '') @ major @ ('':'' @ [CHR 0x0A]))
                   else Inr course_type_text) (\<lambda>response.
                  Inr (if \<not> df_empty major_courses then major_courses else empty_frame, [],
                       response @ ([CHR 0x0A] @ ''Would you like to see all mandatory courses for your major, or help planning your semester?''))))))"

subsection \<open>The entry point\<close>

text \<open>
  \<open>get_intelligent_recommendations\<close>. \<open>llm_path\<close> is the outcome of the first block
  (lines 161-178) for a non-empty query: the triple it returns, or \<open>None\<close> when the
  language model is off or the block raised. \<open>others\<close> stands for the ten handlers that
  no property below looks into, called with the intent label, the expanded query and
  the profile.
\<close>

definition expand_query :: "string \<Rightarrow> string" where
  "expand_query query = apply_expansions expansions (strip (lower query))"

definition get_intelligent_recommendations ::
  "(string \<Rightarrow> string \<Rightarrow> real) \<Rightarrow> regex \<Rightarrow> (string \<Rightarrow> result option)
    \<Rightarrow> (string \<Rightarrow> string \<Rightarrow> (string \<times> string) list \<Rightarrow> error + result)
    \<Rightarrow> (bool \<Rightarrow> int list \<Rightarrow> nat list)
    \<Rightarrow> (frame \<Rightarrow> string \<Rightarrow> string \<Rightarrow> string \<Rightarrow> string \<Rightarrow> string option \<Rightarrow> error + explanations)
    \<Rightarrow> (frame \<Rightarrow> explanations \<Rightarrow> string \<Rightarrow> string \<Rightarrow> string option \<Rightarrow> error + string)
    \<Rightarrow> nat \<times> nat \<times> nat \<Rightarrow> frame option \<Rightarrow> lecturer_map \<Rightarrow> (string \<times> string) list
    \<Rightarrow> string option \<Rightarrow> int \<Rightarrow> error + result" where
  "get_intelligent_recommendations ratio re_compile llm_path others argsort explain respond draws
       courses_df lecturers student_profile query limit =
     (let major = profile_get student_profile ''major'' ''Computer Science'';
          career_goal = profile_get student_profile ''career_goal'' '''';
          experience_level = profile_get student_profile ''experience_level'' ''Beginner'';
          program = profile_get student_profile ''program'' ''Bachelor'';
          recommend = (\<lambda>expanded_query.
             Inr (handle_course_recommendation draws re_compile argsort explain respond courses_df
                    expanded_query major career_goal experience_level program limit))
      in
      case query of
        None \<Rightarrow> recommend None
      | Some q \<Rightarrow>
          if q = [] then recommend (Some q)
          else
            (case llm_path q of
               Some r \<Rightarrow> Inr r
             | None \<Rightarrow>
                 (let expanded_query = expand_query q;
                      query_intent = analyze_query_intent ratio (Some q)
                  in
                  if query_intent = ''preparation_advice''
                    then others query_intent expanded_query student_profile
                  else if query_intent = ''course_type_explanation''
                    then handle_course_type_explanation re_compile courses_df expanded_query major
                  else if query_intent = ''program_duration''
                    then others query_intent expanded_query student_profile
                  else if query_intent = ''general_info''
                    then handle_general_info_query draws re_compile courses_df lecturers expanded_query
                           major career_goal experience_level program
                  else if query_intent \<in> set [''greeting'', ''lecturer_info'', ''schedule_info'',
                            ''career_guidance'', ''module_planning'', ''attendance_consequences'',
                            ''student_issues'', ''specific_class_preparation'']
                    then others query_intent expanded_query student_profile
                  else if query_intent = ''program_info''
                    then handle_program_info_query re_compile argsort courses_df lecturers expanded_query
                           major career_goal experience_level program
                  else recommend (Some expanded_query))))"


subsection \<open>Properties of the handlers\<close>

text \<open>Parameters and tables for the examples. \<open>literal_regex\<close> is the search of a
  pattern that holds no metacharacter.\<close>

definition literal_regex :: regex where
  "literal_regex pat = Some (\<lambda>s. contains (lower s) (lower pat))"

definition no_llm :: "string \<Rightarrow> result option" where
  "no_llm q = None"

definition echo_others :: "string \<Rightarrow> string \<Rightarrow> (string \<times> string) list \<Rightarrow> error + result" where
  "echo_others intent q p = Inr (empty_frame, [], intent)"

definition identity_argsort :: "bool \<Rightarrow> int list \<Rightarrow> nat list" where
  "identity_argsort ascending xs = [0 ..< length xs]"

definition no_explain ::
  "frame \<Rightarrow> string \<Rightarrow> string \<Rightarrow> string \<Rightarrow> string \<Rightarrow> string option \<Rightarrow> error + explanations" where
  "no_explain f major career_goal experience_level program q = Inr []"

definition no_respond ::
  "frame \<Rightarrow> explanations \<Rightarrow> string \<Rightarrow> string \<Rightarrow> string option \<Rightarrow> error + string" where
  "no_respond f e major career_goal q = Inr ''ok''"

definition design_table :: frame where
  "design_table =
     \<lparr>columns = [''course_id'', ''course_name'', ''course_description'', ''skills_covered_str'',
                 ''category'', ''course_type''],
      rows = [[(''course_id'', Str ''D1''), (''course_name'', Str ''Typography''),
               (''course_description'', Str ''Letters and layout''),
               (''skills_covered_str'', Str ''type, layout''),
               (''category'', Str ''Interaction Design''), (''course_type'', Str ''mandatory'')],
              [(''course_id'', Str ''D2''), (''course_name'', Str ''Colour''),
               (''course_description'', Str ''Colour theory''),
               (''skills_covered_str'', Str ''colour''),
               (''category'', Str ''Interaction Design''), (''course_type'', Str ''audit'')]]\<rparr>"

definition no_rows :: frame where
  "no_rows = \<lparr>columns = [''course_id'', ''course_name'', ''category''], rows = []\<rparr>"

text \<open>The sort returns as many positions as it is given scores.\<close>

definition keeps_length :: "(bool \<Rightarrow> int list \<Rightarrow> nat list) \<Rightarrow> bool" where
  "keeps_length argsort = (\<forall>ascending xs. length (argsort ascending xs) = length xs)"

lemma startswith_append: "startswith (ys @ zs) ys"
  by (induction ys) simp_all

lemma contains_startswith: "startswith s sub \<Longrightarrow> contains s sub"
  by (cases s; cases sub) auto

lemma contains_middle: "contains (xs @ ys @ zs) ys"
  by (induction xs) (simp_all add: contains_startswith startswith_append)

lemma unknown_narrative:
  "\<exists>pre post. snd (snd (handle_unknown_query draws query major career_goal))
     = pre @ alternatives_heading @ post"
proof -
  obtain d1 d2 d3 where d: "draws = (d1, d2, d3)" by (cases draws)
  have "snd (snd (handle_unknown_query draws query major career_goal))
     = (openings query ! (d1 mod 4) @ limitations ! (d2 mod 4)
        @ [CHR ''L'', CHR ''e'', CHR ''t''] @ drop 3 (''Let me guide you to what I can help with.'' @ [CHR 0x0A, CHR 0x0A]))
       @ alternatives_heading
       @ (alternatives major @ career_section career_goal @ closings ! (d3 mod 4))"
    by (simp add: handle_unknown_query_def d)
  then show ?thesis by blast
qed

lemma alternatives_heading_nonempty: "alternatives_heading \<noteq> []"
  by (simp add: alternatives_heading_def)

lemma and_then_Inr_iff:
  "and_then r f = Inr y \<longleftrightarrow> (\<exists>x. r = Inr x \<and> f x = Inr y)"
  by (cases r) (simp_all add: and_then_def)

lemma recommendation_body_three:
  "recommendation_body re_compile argsort explain respond courses_df query major career_goal
     experience_level program limit = Inr (Some (tc, e, a)) \<Longrightarrow> 3 \<le> length (rows tc)"
  by (auto simp: recommendation_body_def and_then_Inr_iff Let_def split: if_splits)

lemma score_all_length:
  "score_all major career_goal experience_level program query rs = Inr scores
     \<Longrightarrow> length scores = length rs"
  by (induction rs arbitrary: scores) (auto simp: and_then_Inr_iff)

lemma slice_to_length:
  "length xs = length ys \<Longrightarrow> length (slice_to n xs) = length (slice_to n ys)"
  by (simp add: slice_to_def)

lemma score_courses_length:
  assumes "keeps_length argsort"
    and "score_courses argsort courses major career_goal experience_level program query
           = Inr scored"
  shows "length (rows scored) = length (rows courses)"
  using assms score_all_length
  by (fastforce simp: score_courses_def and_then_Inr_iff keeps_length_def Let_def)

lemma few_candidates_body:
  assumes k: "keeps_length argsort"
    and c: "candidate_courses re_compile courses_df major = Inr cand"
    and f: "length (slice_to limit (rows cand)) < 3"
  shows "recommendation_body re_compile argsort explain respond courses_df query major
           career_goal experience_level program limit = Inr None
         \<or> (\<exists>e. recommendation_body re_compile argsort explain respond courses_df query major
                  career_goal experience_level program limit = Inl e)"
proof (cases "df_empty cand")
  case True
  then show ?thesis by (simp add: recommendation_body_def c and_then_def)
next
  case False
  show ?thesis
  proof (cases "score_courses argsort cand major career_goal experience_level program query")
    case (Inl e)
    then show ?thesis using False by (simp add: recommendation_body_def c and_then_def)
  next
    case (Inr scored)
    have "length (slice_to limit (rows scored)) < 3"
      using slice_to_length [OF score_courses_length [OF k Inr], of limit] f by simp
    then show ?thesis
      using False Inr by (simp add: recommendation_body_def c and_then_def Let_def)
  qed
qed

lemma empty_table_body:
  assumes "rows df = []"
  shows "recommendation_body re_compile argsort explain respond (Some df) query major
           career_goal experience_level program limit = Inr None
         \<or> (\<exists>e. recommendation_body re_compile argsort explain respond (Some df) query major
                  career_goal experience_level program limit = Inl e)"
proof (cases "candidate_courses re_compile (Some df) major")
  case (Inl e)
  then show ?thesis by (simp add: recommendation_body_def and_then_def)
next
  case (Inr cand)
  then have "rows cand = []"
    using assms
    by (auto simp: candidate_courses_def where_contains_def need_column_def and_then_Inr_iff
          filter_rows_def split: if_splits option.splits)
  then show ?thesis
    using Inr by (simp add: recommendation_body_def and_then_def df_empty_def)
qed

lemma fallback_cases:
  "recommendation_body re_compile argsort explain respond courses_df query major
           career_goal experience_level program limit = Inr None
   \<or> (\<exists>e. recommendation_body re_compile argsort explain respond courses_df query major
                  career_goal experience_level program limit = Inl e)
   \<Longrightarrow> handle_course_recommendation draws re_compile argsort explain respond courses_df query
         major career_goal experience_level program limit
       = handle_unknown_query draws query major career_goal"
  by (auto simp: handle_course_recommendation_def)

lemma has_string_accessor:
  assumes "r \<in> set (rows df)" and "get r col NA = Str t"
  shows "str_accessor_ok col df"
proof -
  have "Str t \<in> set (filter (\<lambda>c. c \<noteq> NA) (map (\<lambda>r. get r col NA) (rows df)))"
    using assms by force
  then have "\<exists>c \<in> set (filter (\<lambda>c. c \<noteq> NA) (map (\<lambda>r. get r col NA) (rows df))).
      (case c of Str t \<Rightarrow> True | _ \<Rightarrow> False)"
    by (rule bexI [rotated]) simp
  then show ?thesis
    unfolding str_accessor_ok_def Let_def list_ex_iff by (rule disjI2)
qed

lemma program_info_empty:
  assumes "''category'' \<in> set (columns df)"
    and "\<exists>r \<in> set (rows df). \<exists>t. get r ''category'' NA = Str t"
    and "re_compile (target_program_of q program major) = Some found"
    and "\<forall>r \<in> set (rows df). \<not> str_search found (get r ''category'' NA)"
  shows "handle_program_info_query re_compile argsort (Some df) lecturers q major career_goal
           experience_level program
         = Inr (empty_frame, [], no_program_courses (target_program_of q program major))"
proof -
  have "filter (\<lambda>r. str_search found (get r ''category'' NA)) (rows df) = []"
    using assms(4) by (simp add: filter_empty_conv)
  moreover have "str_accessor_ok ''category'' df"
    using assms(2) has_string_accessor by blast
  ultimately show ?thesis
    using assms(1,3)
    by (simp add: handle_program_info_query_def where_contains_def need_column_def
          and_then_def filter_rows_def df_empty_def Let_def)
qed

text \<open>
  C8 (as stated): every handler whose course subset would be empty returns the result of
  the unknown-query handler. It fails for the program-information handler, which has
  its own answer for that case: on a table of design courses, \<open>fintech degree\<close> is
  classified \<open>program_info\<close>, no category matches \<open>Fintech\<close>, and the handler
  returns an empty table with the narrative \<open>I couldn't find courses specifically for
  Fintech ...\<close>, which has no alternatives section.
\<close>

theorem empty_subset_fallback_counterexample:
  "analyze_query_intent no_similarity (Some ''fintech degree'') = ''program_info''
   \<and> get_intelligent_recommendations no_similarity literal_regex no_llm echo_others
        identity_argsort no_explain no_respond (0, 0, 0) (Some design_table) [] []
        (Some ''fintech degree'') 10
       = Inr (empty_frame, [], no_program_courses ''Fintech'')
   \<and> \<not> contains (no_program_courses ''Fintech'') alternatives_heading"
  by code_simp

text \<open>
  C8 (amended). The general-information handler returns the result of the unknown-query
  handler whenever its search raises or finds no course. The generic recommendation
  path returns it whenever a step raises, whenever the course table has no row, and
  (given that sorting keeps the number of rows) whenever fewer than 3 of the candidate
  courses remain after the limit; it never returns fewer than 3 courses. That result is
  an empty table, no explanations and a non-empty narrative containing the alternatives
  section. The program-information handler, when the category column holds text and no
  category matches the program it looks for, returns an empty table with its own
  narrative instead.
\<close>

theorem empty_subset_fallback:
  "((\<forall>r. relevant_courses re_compile courses_df (strip (lower q))
             (first_key major_keywords (strip (lower q))) = Some r \<longrightarrow> df_empty r)
     \<longrightarrow> handle_general_info_query draws re_compile courses_df lecturers q major career_goal
           experience_level program
         = Inr (handle_unknown_query draws (Some q) major career_goal))
   \<and> ((\<exists>e. recommendation_body re_compile argsort explain respond table_a query major
               career_goal experience_level program limit = Inl e)
       \<longrightarrow> handle_course_recommendation draws re_compile argsort explain respond table_a query
             major career_goal experience_level program limit
           = handle_unknown_query draws query major career_goal)
   \<and> (rows df_b = []
       \<longrightarrow> handle_course_recommendation draws re_compile argsort explain respond (Some df_b)
             query major career_goal experience_level program limit
           = handle_unknown_query draws query major career_goal)
   \<and> (keeps_length argsort
        \<and> candidate_courses re_compile table_c major = Inr cand
        \<and> length (slice_to limit (rows cand)) < 3
       \<longrightarrow> handle_course_recommendation draws re_compile argsort explain respond table_c query
             major career_goal experience_level program limit
           = handle_unknown_query draws query major career_goal)
   \<and> (handle_course_recommendation draws re_compile argsort explain respond table_d query
         major career_goal experience_level program limit
         = handle_unknown_query draws query major career_goal
       \<or> 3 \<le> length (rows (fst (handle_course_recommendation draws re_compile argsort
                 explain respond table_d query major career_goal experience_level program
                 limit))))
   \<and> fst (handle_unknown_query draws query major career_goal) = empty_frame
   \<and> fst (snd (handle_unknown_query draws query major career_goal)) = []
   \<and> snd (snd (handle_unknown_query draws query major career_goal)) \<noteq> []
   \<and> contains (snd (snd (handle_unknown_query draws query major career_goal)))
        alternatives_heading
   \<and> (''category'' \<in> set (columns df_e)
        \<and> (\<exists>r \<in> set (rows df_e). \<exists>t. get r ''category'' NA = Str t)
        \<and> re_compile (target_program_of q_e program major) = Some found
        \<and> (\<forall>r \<in> set (rows df_e). \<not> str_search found (get r ''category'' NA))
       \<longrightarrow> handle_program_info_query re_compile argsort (Some df_e) lecturers q_e major
             career_goal experience_level program
           = Inr (empty_frame, [], no_program_courses (target_program_of q_e program major)))"
proof -
  have g: "handle_general_info_query draws re_compile courses_df lecturers q major career_goal
             experience_level program
           = Inr (handle_unknown_query draws (Some q) major career_goal)"
    if "\<forall>r. relevant_courses re_compile courses_df (strip (lower q))
               (first_key major_keywords (strip (lower q))) = Some r \<longrightarrow> df_empty r"
    using that
    by (cases "relevant_courses re_compile courses_df (strip (lower q))
                 (first_key major_keywords (strip (lower q)))")
       (simp_all add: handle_general_info_query_def Let_def)
  have r1: "handle_course_recommendation draws re_compile argsort explain respond table_a query
             major career_goal experience_level program limit
           = handle_unknown_query draws query major career_goal"
    if "\<exists>e. recommendation_body re_compile argsort explain respond table_a query major
               career_goal experience_level program limit = Inl e"
    using that by (intro fallback_cases) blast
  have r2: "handle_course_recommendation draws re_compile argsort explain respond (Some df_b)
             query major career_goal experience_level program limit
           = handle_unknown_query draws query major career_goal"
    if "rows df_b = []"
    by (rule fallback_cases [OF empty_table_body [OF that]])
  have r3: "handle_course_recommendation draws re_compile argsort explain respond table_c query
             major career_goal experience_level program limit
           = handle_unknown_query draws query major career_goal"
    if "keeps_length argsort" "candidate_courses re_compile table_c major = Inr cand"
       "length (slice_to limit (rows cand)) < 3"
    by (rule fallback_cases [OF few_candidates_body [OF that]])
  have c: "handle_course_recommendation draws re_compile argsort explain respond table_d query
             major career_goal experience_level program limit
             = handle_unknown_query draws query major career_goal
           \<or> 3 \<le> length (rows (fst (handle_course_recommendation draws re_compile argsort
                     explain respond table_d query major career_goal experience_level program
                     limit)))"
  proof (cases "recommendation_body re_compile argsort explain respond table_d query major
                  career_goal experience_level program limit")
    case (Inl e)
    then show ?thesis by (simp add: handle_course_recommendation_def)
  next
    case (Inr r)
    show ?thesis
    proof (cases r)
      case None
      then show ?thesis using Inr by (simp add: handle_course_recommendation_def)
    next
      case (Some t)
      obtain tc e a where t: "t = (tc, e, a)" by (cases t)
      show ?thesis
        using recommendation_body_three [of re_compile argsort explain respond table_d query
            major career_goal experience_level program limit tc e a] Inr Some t
        by (simp add: handle_course_recommendation_def)
    qed
  qed
  obtain pre post where n: "snd (snd (handle_unknown_query draws query major career_goal))
      = pre @ alternatives_heading @ post"
    using unknown_narrative by blast
  have u: "fst (handle_unknown_query draws query major career_goal) = empty_frame"
          "fst (snd (handle_unknown_query draws query major career_goal)) = []"
    by (simp_all add: handle_unknown_query_def split: prod.splits)
  have ne: "snd (snd (handle_unknown_query draws query major career_goal)) \<noteq> []"
    unfolding n using alternatives_heading_nonempty by simp
  have ct: "contains (snd (snd (handle_unknown_query draws query major career_goal)))
              alternatives_heading"
    unfolding n by (rule contains_middle)
  have p: "handle_program_info_query re_compile argsort (Some df_e) lecturers q_e major
             career_goal experience_level program
           = Inr (empty_frame, [], no_program_courses (target_program_of q_e program major))"
    if "''category'' \<in> set (columns df_e)"
       "\<exists>r \<in> set (rows df_e). \<exists>t. get r ''category'' NA = Str t"
       "re_compile (target_program_of q_e program major) = Some found"
       "\<forall>r \<in> set (rows df_e). \<not> str_search found (get r ''category'' NA)"
    by (rule program_info_empty [where re_compile = re_compile and found = found, OF that])
  show ?thesis
    apply (intro conjI impI)
    subgoal by (erule g)
    subgoal by (erule r1)
    subgoal by (erule r2)
    subgoal by (elim conjE) (erule (2) r3)
    subgoal by (rule c)
    subgoal by (rule u(1))
    subgoal by (rule u(2))
    subgoal by (rule ne)
    subgoal by (rule ct)
    subgoal by (elim conjE) (erule (3) p)
    done
qed

theorem empty_subset_fallback_witness:
  "relevant_courses literal_regex (Some design_table) (strip (lower ''python''))
       (first_key major_keywords (strip (lower ''python'')))
     = Some (design_table\<lparr>rows := []\<rparr>)
   \<and> handle_general_info_query (0, 1, 2) literal_regex (Some design_table) [] ''python''
        ''Design'' '''' ''Beginner'' ''Bachelor''
       = Inr (handle_unknown_query (0, 1, 2) (Some ''python'') ''Design'' '''')
   \<and> recommendation_body literal_regex identity_argsort no_explain no_respond None None
        ''Design'' '''' ''Beginner'' ''Bachelor'' 10 = Inl TypeError
   \<and> handle_course_recommendation (0, 1, 2) literal_regex identity_argsort no_explain
        no_respond None None ''Design'' '''' ''Beginner'' ''Bachelor'' 10
       = handle_unknown_query (0, 1, 2) None ''Design'' ''''
   \<and> rows no_rows = []
   \<and> handle_course_recommendation (0, 1, 2) literal_regex identity_argsort no_explain
        no_respond (Some no_rows) None ''Design'' '''' ''Beginner'' ''Bachelor'' 10
       = handle_unknown_query (0, 1, 2) None ''Design'' ''''
   \<and> keeps_length identity_argsort
   \<and> candidate_courses literal_regex (Some design_table) ''Design'' = Inr design_table
   \<and> length (slice_to 10 (rows design_table)) = 2
   \<and> handle_course_recommendation (0, 1, 2) literal_regex identity_argsort no_explain
        no_respond (Some design_table) None ''Design'' '''' ''Beginner'' ''Bachelor'' 10
       = handle_unknown_query (0, 1, 2) None ''Design'' ''''
   \<and> get (hd (rows design_table)) ''category'' NA = Str ''Interaction Design''
   \<and> literal_regex (target_program_of ''fintech degree'' ''Bachelor'' ''Design'')
       = Some (\<lambda>s. contains (lower s) (lower ''Fintech''))
   \<and> handle_program_info_query literal_regex identity_argsort (Some design_table) []
        ''fintech degree'' ''Design'' '''' ''Beginner'' ''Bachelor''
       = Inr (empty_frame, [], no_program_courses ''Fintech'')"
proof -
  have rel: "relevant_courses literal_regex (Some design_table) (strip (lower ''python''))
            (first_key major_keywords (strip (lower ''python'')))
           = Some (design_table\<lparr>rows := []\<rparr>)"
    by code_simp
  have h: "\<forall>r. relevant_courses literal_regex (Some design_table) (strip (lower ''python''))
            (first_key major_keywords (strip (lower ''python''))) = Some r \<longrightarrow> df_empty r"
    by (simp add: rel df_empty_def)
  have b1: "recommendation_body literal_regex identity_argsort no_explain no_respond None None
        ''Design'' '''' ''Beginner'' ''Bachelor'' 10 = Inl TypeError"
    by (simp add: recommendation_body_def candidate_courses_def and_then_def)
  have e2: "rows no_rows = []" by (simp add: no_rows_def)
  have k: "keeps_length identity_argsort"
    by (simp add: keeps_length_def identity_argsort_def)
  have cand: "candidate_courses literal_regex (Some design_table) ''Design'' = Inr design_table"
    by code_simp
  have few: "length (slice_to 10 (rows design_table)) = 2"
    by (simp add: slice_to_def design_table_def)
  have tp: "target_program_of ''fintech degree'' ''Bachelor'' ''Design'' = ''Fintech''"
    by code_simp
  have cat: "''category'' \<in> set (columns design_table)"
    by (simp add: design_table_def)
  have hd: "get (hd (rows design_table)) ''category'' NA = Str ''Interaction Design''"
    by (simp add: design_table_def get_def)
  have acc: "\<exists>r \<in> set (rows design_table). \<exists>t. get r ''category'' NA = Str t"
    by (simp add: design_table_def get_def)
  have nomatch: "\<forall>r \<in> set (rows design_table).
      \<not> str_search (\<lambda>s. contains (lower s) (lower ''Fintech'')) (get r ''category'' NA)"
    by code_simp
  have lit: "literal_regex (target_program_of ''fintech degree'' ''Bachelor'' ''Design'')
       = Some (\<lambda>s. contains (lower s) (lower ''Fintech''))"
    by (simp add: tp literal_regex_def)
  note t = empty_subset_fallback [where re_compile = literal_regex
      and courses_df = "Some design_table" and q = "''python''" and draws = "(0, 1, 2)"
      and lecturers = "[]" and major = "''Design''" and career_goal = "''''"
      and experience_level = "''Beginner''" and program = "''Bachelor''"
      and argsort = identity_argsort and explain = no_explain and respond = no_respond
      and table_a = None and query = None and limit = 10 and df_b = no_rows
      and table_c = "Some design_table" and cand = design_table
      and table_d = None and df_e = design_table and q_e = "''fintech degree''"
      and found = "\<lambda>s. contains (lower s) (lower ''Fintech'')"]
  show ?thesis
    using t rel h b1 e2 k cand few cat hd acc nomatch lit
    by (simp add: tp)
qed

lemma course_type_explanation_zero_rows:
  "rows df = [] \<Longrightarrow> ''category'' \<in> set (columns df) \<Longrightarrow> re_compile major = Some found \<Longrightarrow>
   \<exists>narrative. handle_course_type_explanation re_compile (Some df) query major
                 = Inr (empty_frame, [], narrative)"
  by (simp add: handle_course_type_explanation_def where_contains_def need_column_def
        str_accessor_ok_def filter_rows_def head_def df_empty_def and_then_def Let_def)

text \<open>
  C9 fails on the code. The table \<open>pd.DataFrame()\<close> has no row and no column. The
  schedule entry point answers \<open>[]\<close> on it; the recommendation entry point, asked
  \<open>what is audit\<close>, reaches the course-type handler, which reads the column
  \<open>category\<close> without a guard and raises \<open>KeyError\<close>.
\<close>

theorem empty_table_recommendation_raises:
  "df_empty empty_frame
   \<and> generate_smart_schedule py_hash sample_order now (Some empty_frame) student_profile
        enrolled completed limit_modules = Inr []
   \<and> analyze_query_intent no_similarity (Some ''what is audit'') = ''course_type_explanation''
   \<and> get_intelligent_recommendations no_similarity re_compile no_llm others argsort explain
        respond draws (Some empty_frame) lecturers student_profile (Some ''what is audit'') limit
       = Inl (KeyError ''category'')"
proof -
  have e: "df_empty empty_frame" by (simp add: df_empty_def empty_frame_def)
  have i: "analyze_query_intent no_similarity (Some ''what is audit'')
             = ''course_type_explanation''"
    by code_simp
  have h: "handle_course_type_explanation re_compile (Some empty_frame) q major
             = Inl (KeyError ''category'')" for q major
    by (simp add: handle_course_type_explanation_def where_contains_def need_column_def
          empty_frame_def and_then_def)
  have "get_intelligent_recommendations no_similarity re_compile no_llm others argsort explain
        respond draws (Some empty_frame) lecturers student_profile (Some ''what is audit'') limit
       = Inl (KeyError ''category'')"
    by (simp add: get_intelligent_recommendations_def i h no_llm_def Let_def)
  then show ?thesis
    using e i by (simp add: generate_smart_schedule_def)
qed


end
